theory Spec2Isabelle
  imports Main "HOL-Library.Word"
begin

text \<open>
  A model of the Gradio JavaScript client, \<open>client/js/src/client.ts\<close>: the normalisation of
  the schema (\<open>view_api\<close>), the extraction and reinsertion of binary payloads
  (\<open>handle_blob\<close>), the choice between the direct request and the queue (\<open>skip_queue\<close>), the
  handling of queue frames and the events of a submission (\<open>submit\<close>), and the polling of a
  space that is not running (\<open>check_space_status\<close>). Line numbers are those of that file.
  Promises, callbacks and sockets are modelled by state passing: each callback is a
  function on the state of the client, and a function that may throw returns \<open>exn + 'a\<close>
  (or an option, where only the fact of the exception matters).
\<close>

section \<open>JavaScript values\<close>

text \<open>
  The client handles values it never inspects beyond a few properties: server frames, HTTP
  outputs, the payload tree. They are modelled by one datatype of JavaScript values. An
  object is the list of its own enumerable properties, in the order in which \<open>for ... in\<close>
  enumerates them; \<open>JBuffer\<close> and \<open>JBlob\<close> are the two binary leaves the blob walk
  distinguishes (\<open>instanceof Buffer\<close>, \<open>instanceof Blob\<close>). No value is a function.
\<close>

type_synonym bytes = "8 word list"

datatype json =
    JUndefined
  | JNull
  | JBool bool
  | JNum int
  | JStr string
  | JArr "json list"
  | JObj "(string \<times> json) list"
  | JBuffer bytes
  | JBlob bytes

text \<open>JavaScript truthiness, as used by \<open>!x\<close>, \<open>x || y\<close>, \<open>x ? a : b\<close> and \<open>if (x)\<close>.\<close>

fun truthy :: "json \<Rightarrow> bool" where
  "truthy JUndefined = False"
| "truthy JNull = False"
| "truthy (JBool b) = b"
| "truthy (JNum n) = (n \<noteq> 0)"
| "truthy (JStr s) = (s \<noteq> [])"
| "truthy (JArr xs) = True"
| "truthy (JObj kvs) = True"
| "truthy (JBuffer b) = True"
| "truthy (JBlob b) = True"

fun nullish :: "json \<Rightarrow> bool" where
  "nullish JUndefined = True"
| "nullish JNull = True"
| "nullish (JBool b) = False"
| "nullish (JNum n) = False"
| "nullish (JStr s) = False"
| "nullish (JArr xs) = False"
| "nullish (JObj kvs) = False"
| "nullish (JBuffer b) = False"
| "nullish (JBlob b) = False"

text \<open>
  The read \<open>d?.k\<close>: an own property of an object, and \<open>undefined\<close> otherwise, also on \<open>null\<close>
  and \<open>undefined\<close>. The plain read \<open>d.k\<close> throws a TypeError on \<open>null\<close> and \<open>undefined\<close>: where
  the source has it, the model tests \<open>nullish\<close> first and returns the exception as a value.
\<close>

fun js_get :: "json \<Rightarrow> string \<Rightarrow> json" where
  "js_get (JObj kvs) k = (case map_of kvs k of Some v \<Rightarrow> v | None \<Rightarrow> JUndefined)"
| "js_get JUndefined k = JUndefined"
| "js_get JNull k = JUndefined"
| "js_get (JBool b) k = JUndefined"
| "js_get (JNum n) k = JUndefined"
| "js_get (JStr s) k = JUndefined"
| "js_get (JArr xs) k = JUndefined"
| "js_get (JBuffer b) k = JUndefined"
| "js_get (JBlob b) k = JUndefined"

datatype exn = TypeError | SyntaxError

section \<open>The schema document and its normalisation\<close>

text \<open>
  A raw parameter descriptor (\<open>ApiData\<close>) has a label, a component and a \<open>type\<close> object
  that \<open>get_type\<close> and \<open>get_description\<close> inspect; \<open>example_input\<close> is never read. The
  normalised descriptor (\<open>JsApiData\<close>) has the computed \<open>type\<close> (a string or \<open>undefined\<close>)
  and \<open>description\<close>. An endpoint table is the list of the own properties of the object;
  a property is read with \<open>map_of\<close>.
\<close>

record api_data =
  a_label :: string
  a_type :: json
  a_component :: string

record js_api_data =
  j_label :: string
  j_component :: string
  j_type :: "string option"
  j_description :: json

record 'a endpoint_info =
  parameters :: "'a list"
  returns :: "'a list"

record 'a api_info =
  named_endpoints :: "(string \<times> 'a endpoint_info) list"
  unnamed_endpoints :: "(string \<times> 'a endpoint_info) list"

text \<open>
  \<open>get_type\<close> (lines 562-587) and \<open>get_description\<close> (lines 589-601). \<open>type.type\<close> and
  \<open>type.description\<close> throw on a nullish \<open>type\<close>; the reads with \<open>?.\<close> do not. A function that
  ends without \<open>return\<close> gives \<open>undefined\<close>.
\<close>

definition get_type :: "json \<Rightarrow> string \<Rightarrow> exn + string option" where
  "get_type ty component =
    (if nullish ty then Inl TypeError
     else if js_get ty ''type'' = JStr ''string'' then Inr (Some ''string'')
     else if js_get ty ''type'' = JStr ''boolean'' then Inr (Some ''boolean'')
     else if js_get ty ''type'' = JStr ''number'' then Inr (Some ''number'')
     else if js_get ty ''description'' = JStr ''any valid value''
           \<or> js_get ty ''description'' = JStr ''any valid json'' then Inr (Some ''any'')
     else if js_get ty ''type'' = JStr ''array''
           \<and> js_get (js_get ty ''items'') ''type'' = JStr ''string'' then Inr (Some ''string[]'')
     else if component = ''Image'' then Inr (Some ''string'')
     else if truthy (js_get (js_get ty ''type'') ''oneOf'') then
       Inr (Some (''Record<{ name: string; data: string; size?: number; is_file?: boolean; ''
                  @ ''orig_name?: string}> | { name: string; data: string; size?: number; ''
                  @ ''is_file?: boolean; orig_name?: string}''))
     else if truthy (js_get (js_get (js_get ty ''type'') ''items'') ''prefixItems'') then
       Inr (Some [])
     else Inr None)"

definition get_description :: "json \<Rightarrow> string \<Rightarrow> exn + json" where
  "get_description ty component =
    (if component = ''Gallery'' then Inr JUndefined
     else if component = ''Gallery'' then Inr (JStr ''Array of files'')
     else if truthy (js_get (js_get ty ''type'') ''oneOf'') then
       Inr (JStr ''Array of files or single file'')
     else if nullish ty then Inl TypeError
     else Inr (js_get ty ''description''))"

text \<open>\<open>xs.map(f)\<close> where \<open>f\<close> may throw: the first exception ends the map.\<close>

fun map_exn :: "('a \<Rightarrow> exn + 'b) \<Rightarrow> 'a list \<Rightarrow> exn + 'b list" where
  "map_exn f [] = Inr []"
| "map_exn f (x # xs) =
     (case f x of
        Inl e \<Rightarrow> Inl e
      | Inr y \<Rightarrow> (case map_exn f xs of Inl e \<Rightarrow> Inl e | Inr ys \<Rightarrow> Inr (y # ys)))"

definition transform_data :: "api_data \<Rightarrow> exn + js_api_data" where
  "transform_data d =
     (case get_type (a_type d) (a_component d) of
        Inl e \<Rightarrow> Inl e
      | Inr t \<Rightarrow>
          (case get_description (a_type d) (a_component d) of
             Inl e \<Rightarrow> Inl e
           | Inr ds \<Rightarrow>
               Inr \<lparr>j_label = a_label d, j_component = a_component d,
                    j_type = t, j_description = ds\<rparr>))"

text \<open>Both \<open>parameters\<close> and \<open>returns\<close> of the result are computed from \<open>info.parameters\<close>.\<close>

definition transform_endpoint :: "api_data endpoint_info \<Rightarrow> exn + js_api_data endpoint_info" where
  "transform_endpoint info =
     (case map_exn transform_data (parameters info) of
        Inl e \<Rightarrow> Inl e
      | Inr ps \<Rightarrow>
          (case map_exn transform_data (parameters info) of
             Inl e \<Rightarrow> Inl e
           | Inr rs \<Rightarrow> Inr \<lparr>parameters = ps, returns = rs\<rparr>))"

definition transform_category ::
  "(string \<times> api_data endpoint_info) list \<Rightarrow> exn + (string \<times> js_api_data endpoint_info) list" where
  "transform_category cat =
     map_exn (\<lambda>(endpoint, info).
        case transform_endpoint info of Inl e \<Rightarrow> Inl e | Inr i \<Rightarrow> Inr (endpoint, i)) cat"

text \<open>
  \<open>transform_api_info\<close> (lines 603-637) loops over the properties of the document, which
  are the two tables (\<open>ApiInfo\<close> has no other property).
\<close>

definition transform_api_info :: "api_data api_info \<Rightarrow> exn + js_api_data api_info" where
  "transform_api_info api_info =
     (case transform_category (named_endpoints api_info) of
        Inl e \<Rightarrow> Inl e
      | Inr n \<Rightarrow>
          (case transform_category (unnamed_endpoints api_info) of
             Inl e \<Rightarrow> Inl e
           | Inr u \<Rightarrow> Inr \<lparr>named_endpoints = n, unnamed_endpoints = u\<rparr>))"

text \<open>
  What \<open>view_api\<close> returns and \<open>client\<close> stores in \<open>api\<close>: the normalised schema, or the pair
  \<open>[{error: ...}, 500]\<close> when the request or the normalisation threw.
\<close>

datatype api = ApiError | Api "js_api_data api_info"

text \<open>\<open>o[k] = v\<close> on a table of own properties.\<close>

fun put_property :: "string \<Rightarrow> 'v \<Rightarrow> (string \<times> 'v) list \<Rightarrow> (string \<times> 'v) list" where
  "put_property k v [] = [(k, v)]"
| "put_property k v ((k', v') # kvs) =
     (if k' = k then (k, v) # kvs else (k', v') # put_property k v kvs)"

text \<open>
  \<open>view_api\<close> (lines 498-528): the cached \<open>api\<close> if there is one; else the body of the response to
  \<open>GET /info\<close> (\<open>None\<close> when \<open>fetch\<close> or \<open>response.json()\<close> threw), with endpoint \<open>0\<close> aliased
  to \<open>"/predict"\<close>, then normalised.
\<close>

definition view_api :: "api option \<Rightarrow> api_data api_info option \<Rightarrow> api" where
  "view_api cached response =
     (case cached of
        Some a \<Rightarrow> a
      | None \<Rightarrow>
          (case response of
             None \<Rightarrow> ApiError
           | Some api_info \<Rightarrow>
               (case transform_api_info
                       (case map_of (named_endpoints api_info) ''/predict'' of
                          None \<Rightarrow> api_info
                        | Some predict \<Rightarrow>
                            if map_of (unnamed_endpoints api_info) ''0'' = None
                            then api_info\<lparr>unnamed_endpoints :=
                                    put_property ''0'' predict (unnamed_endpoints api_info)\<rparr>
                            else api_info) of
                  Inl e \<Rightarrow> ApiError
                | Inr x \<Rightarrow> Api x)))"

text \<open>
  The property name of a number used as a key, \<open>String(n)\<close>: for an integer its decimal
  numeral. \<open>decimal\<close> puts the digits of a natural number, last digit first, in front of
  the digits collected so far.
\<close>

definition digit_char :: "nat \<Rightarrow> char" where
  "digit_char d = char_of (d + 48)"

fun decimal :: "nat \<Rightarrow> string \<Rightarrow> string" where
  "decimal n acc =
     (if n < 10 then digit_char n # acc else decimal (n div 10) (digit_char (n mod 10) # acc))"

definition property_key :: "int \<Rightarrow> string" where
  "property_key n = (if n < 0 then CHR ''-'' # decimal (nat (- n)) [] else decimal (nat n) [])"

datatype endpoint = EpNum int | EpName string

text \<open>
  The schema entry \<open>submit\<close> resolves (lines 277-284): \<open>api.unnamed_endpoints[endpoint]\<close> for a number,
  \<open>api.named_endpoints[endpoint]\<close> for a string. On the error pair, \<open>api.unnamed_endpoints\<close>
  is \<open>undefined\<close> and the read throws.
\<close>

definition resolve_api_info :: "api \<Rightarrow> endpoint \<Rightarrow> exn + js_api_data endpoint_info option" where
  "resolve_api_info a ep =
     (case a of
        ApiError \<Rightarrow> Inl TypeError
      | Api x \<Rightarrow>
          (case ep of
             EpNum n \<Rightarrow> Inr (map_of (unnamed_endpoints x) (property_key n))
           | EpName s \<Rightarrow> Inr (map_of (named_endpoints x) s)))"

section \<open>Blob extraction and reinsertion\<close>

text \<open>
  A path component is the index of an array element (a number) or the name of an object
  property (a string). In a blob reference, \<open>blob\<close> and \<open>data\<close> are \<open>None\<close> where the source
  has \<open>false\<close> or leaves the property out; both are only tested for truthiness.
\<close>

datatype path_elem = Idx nat | Key string

record blob_ref =
  r_path :: "path_elem list"
  r_blob :: "bytes option"
  r_data :: "string option"
  r_type :: "string option"

text \<open>
  What the walk takes from the platform: whether \<open>window\<close> is defined; whether the global
  \<open>Blob\<close> is defined (it is in a browser and in Node from version 18 on); whether \<open>NodeBlob\<close>
  has been assigned, which \<open>client\<close> does where \<open>window\<close> or its \<open>WebSocket\<close> is missing
  (lines 180-183); the base64 text of a byte sequence (\<open>toString("base64")\<close>); the result of
  the \<open>FileReader\<close>, which is \<open>null\<close> when the read fails; and the order in which the
  concurrent walks of the elements of an array complete. \<open>completion pf path n\<close> lists the
  indices of the \<open>n\<close> elements of the array at \<open>path\<close> in that order, which the job queue of
  the engine and the reads of the blobs determine.
\<close>

record platform =
  has_window :: bool
  has_Blob :: bool
  node_blob :: bool
  to_base64 :: "bytes \<Rightarrow> string"
  image_to_data_uri :: "bytes \<Rightarrow> string option"
  completion :: "path_elem list \<Rightarrow> nat \<Rightarrow> nat list"

text \<open>\<open>api_info?.parameters[i]?.component || undefined\<close>\<close>

definition component_at :: "js_api_data endpoint_info option \<Rightarrow> nat \<Rightarrow> string option" where
  "component_at api_info i =
     (case api_info of
        None \<Rightarrow> None
      | Some info \<Rightarrow>
          if i < length (parameters info) \<and> j_component (parameters info ! i) \<noteq> []
          then Some (j_component (parameters info ! i)) else None)"

text \<open>
  The call \<open>param.hasOwnProperty(key)\<close> (line 773) on an object given by its own
  properties. The method is looked up on the object itself: an own property named
  \<open>hasOwnProperty\<close> hides the inherited method, its value (no value of \<open>json\<close> is a
  function) is called, and the call throws a \<open>TypeError\<close>: the result \<open>None\<close>. Otherwise
  the inherited method tells whether \<open>key\<close> is an own property.
\<close>

definition has_own_property :: "(string \<times> json) list \<Rightarrow> string \<Rightarrow> bool option" where
  "has_own_property param key =
     (case map_of param ''hasOwnProperty'' of
        Some f \<Rightarrow> None
      | None \<Rightarrow> Some (map_of param key \<noteq> None))"

text \<open>
  The results of the element walks of an array, taken in the order in which the walks
  complete: each callback appends its references to \<open>blob_refs\<close> when its walk has resolved
  (line 739).
\<close>

definition in_order :: "nat list \<Rightarrow> 'a list \<Rightarrow> 'a list" where
  "in_order order rs = map (\<lambda>i. rs ! i) (filter (\<lambda>i. i < length rs) order)"

text \<open>
  \<open>walk_and_store_blobs(param, type, path, root, api_info)\<close> (lines 716-791). The result is \<open>None\<close> when the
  returned promise rejects, \<open>Some\<close> of the references it resolves with otherwise.

  \<^item> An array (lines 723-743): \<open>walk_array\<close> is the map over the elements from index \<open>i\<close> on; it gives
    the references of each element, by index. \<open>Promise.all\<close> rejects when the walk of one
    element rejects; otherwise \<open>blob_refs\<close> holds the references of the elements in the
    order of completion.
  \<^item> A buffer (lines 744-753), a value for which \<open>globalThis.Buffer && param instanceof globalThis.Buffer\<close>
    holds: \<open>new NodeBlob([param])\<close> is evaluated unless the type is \<open>"Image"\<close>, and throws a
    \<open>TypeError\<close> when \<open>NodeBlob\<close> has not been assigned.
  \<^item> Every other value reaches the test \<open>param instanceof Blob\<close> (line 754), which throws a
    \<open>ReferenceError\<close> where the global \<open>Blob\<close> is not defined. An image blob is read
    by the \<open>FileReader\<close> where \<open>window\<close> is defined and through \<open>Buffer\<close> elsewhere (in
    Node, which defines \<open>Buffer\<close>).
  \<^item> An object (lines 770-787): \<open>walk_object\<close> is the loop over the properties that \<open>for ... in\<close>
    enumerates, in their order; \<open>param\<close> is the whole object, on which \<open>hasOwnProperty\<close> is
    called at each property. The walks of the property values run one after the other.
    \<open>typeof null\<close> is \<open>"object"\<close> and \<open>null\<close> has no property.
\<close>

fun walk_and_store_blobs ::
    "platform \<Rightarrow> js_api_data endpoint_info option \<Rightarrow> json \<Rightarrow> string option \<Rightarrow>
     path_elem list \<Rightarrow> bool \<Rightarrow> blob_ref list option"
  and walk_array ::
    "platform \<Rightarrow> js_api_data endpoint_info option \<Rightarrow> json list \<Rightarrow> nat \<Rightarrow> string option \<Rightarrow>
     path_elem list \<Rightarrow> bool \<Rightarrow> blob_ref list list option"
  and walk_object ::
    "platform \<Rightarrow> js_api_data endpoint_info option \<Rightarrow> (string \<times> json) list \<Rightarrow>
     (string \<times> json) list \<Rightarrow> path_elem list \<Rightarrow> blob_ref list option"
where
  "walk_and_store_blobs pf api_info (JArr xs) ty path root =
     (case walk_array pf api_info xs 0 ty path root of
        None \<Rightarrow> None
      | Some rs \<Rightarrow> Some (concat (in_order (completion pf path (length xs)) rs)))"
| "walk_and_store_blobs pf api_info (JBuffer b) ty path root =
     (if ty = Some ''Image'' then
        Some [\<lparr>r_path = path, r_blob = None, r_data = Some (to_base64 pf b), r_type = ty\<rparr>]
      else if node_blob pf then
        Some [\<lparr>r_path = path, r_blob = Some b, r_data = None, r_type = ty\<rparr>]
      else None)"
| "walk_and_store_blobs pf api_info (JBlob b) ty path root =
     (if \<not> has_Blob pf then None
      else if ty = Some ''Image'' then
        Some [\<lparr>r_path = path, r_blob = None,
               r_data = (if has_window pf then image_to_data_uri pf b
                         else Some (to_base64 pf b)),
               r_type = ty\<rparr>]
      else Some [\<lparr>r_path = path, r_blob = Some b, r_data = None, r_type = ty\<rparr>])"
| "walk_and_store_blobs pf api_info (JObj kvs) ty path root =
     (if \<not> has_Blob pf then None else walk_object pf api_info kvs kvs path)"
| "walk_and_store_blobs pf api_info JNull ty path root =
     (if \<not> has_Blob pf then None else Some [])"
| "walk_and_store_blobs pf api_info JUndefined ty path root =
     (if \<not> has_Blob pf then None else Some [])"
| "walk_and_store_blobs pf api_info (JBool b) ty path root =
     (if \<not> has_Blob pf then None else Some [])"
| "walk_and_store_blobs pf api_info (JNum n) ty path root =
     (if \<not> has_Blob pf then None else Some [])"
| "walk_and_store_blobs pf api_info (JStr s) ty path root =
     (if \<not> has_Blob pf then None else Some [])"
| "walk_array pf api_info [] i ty path root = Some []"
| "walk_array pf api_info (x # xs) i ty path root =
     (case walk_and_store_blobs pf api_info x
             (if root then component_at api_info i else ty) (path @ [Idx i]) False of
        None \<Rightarrow> None
      | Some r \<Rightarrow>
          (case walk_array pf api_info xs (Suc i) ty path root of
             None \<Rightarrow> None
           | Some rs \<Rightarrow> Some (r # rs)))"
| "walk_object pf api_info param [] path = Some []"
| "walk_object pf api_info param ((k, v) # kvs) path =
     (case has_own_property param k of
        None \<Rightarrow> None
      | Some own \<Rightarrow>
          if own then
            (case walk_and_store_blobs pf api_info v None (path @ [Key k]) False of
               None \<Rightarrow> None
             | Some r \<Rightarrow>
                 (case walk_object pf api_info param kvs path of
                    None \<Rightarrow> None
                  | Some rs \<Rightarrow> Some (r @ rs)))
          else walk_object pf api_info param kvs path)"

text \<open>
  The read \<open>object[key]\<close> with a recorded path component: an array is read at a number,
  an object at a property name; every other read gives \<open>undefined\<close> here.
\<close>

fun js_index :: "json \<Rightarrow> path_elem \<Rightarrow> json" where
  "js_index (JArr xs) (Idx i) = (if i < length xs then xs ! i else JUndefined)"
| "js_index (JObj kvs) (Key k) = (case map_of kvs k of Some v \<Rightarrow> v | None \<Rightarrow> JUndefined)"
| "js_index x k = JUndefined"

text \<open>
  The write \<open>object[key] = newValue\<close>. It throws on \<open>null\<close>, \<open>undefined\<close> and (the module
  being strict code) on a primitive. An array written beyond its end is extended. The
  writes that a recorded path never makes (a name on an array, a number on an object,
  any on a binary leaf) leave the value as it is here.
\<close>

fun js_assign :: "json \<Rightarrow> path_elem \<Rightarrow> json \<Rightarrow> exn + json" where
  "js_assign (JArr xs) (Idx i) v =
     Inr (JArr (if i < length xs then xs[i := v]
                else xs @ replicate (i - length xs) JUndefined @ [v]))"
| "js_assign (JObj kvs) (Key k) v = Inr (JObj (put_property k v kvs))"
| "js_assign JUndefined k v = Inl TypeError"
| "js_assign JNull k v = Inl TypeError"
| "js_assign (JBool b) k v = Inl TypeError"
| "js_assign (JNum n) k v = Inl TypeError"
| "js_assign (JStr s) k v = Inl TypeError"
| "js_assign x k v = Inr x"

text \<open>
  \<open>update_object(object, newValue, stack)\<close> (lines 708-714) walks to the container of the last component
  and writes there, in place. On a tree the effect is the tree with that one position
  replaced. With an empty stack the source writes the property named \<open>"undefined"\<close>.
\<close>

fun update_object :: "json \<Rightarrow> json \<Rightarrow> path_elem list \<Rightarrow> exn + json" where
  "update_object object newValue [] = js_assign object (Key ''undefined'') newValue"
| "update_object object newValue [k] = js_assign object k newValue"
| "update_object object newValue (k # k' # ks) =
     (case update_object (js_index object k) newValue (k' # ks) of
        Inl e \<Rightarrow> Inl e
      | Inr child \<Rightarrow> js_assign object k child)"

text \<open>
  The first phase of \<open>handle_blob\<close> after the walk (lines 674-684): a reference with a blob is uploaded and
  becomes \<open>{path, file_url, type}\<close> with \<open>file_url\<close> the first file name of the response;
  another one becomes \<open>{path, base64: data, type}\<close>. \<open>upload\<close> gives the file names the
  server answers with, \<open>None\<close> when \<open>upload_files\<close> returns its error object or rejects: then
  \<open>.files[0]\<close> throws, \<open>Promise.all\<close> rejects and \<open>handle_blob\<close> never resolves.
\<close>

record uploaded =
  u_path :: "path_elem list"
  u_file_url :: "string option"
  u_base64 :: "string option"
  u_type :: "string option"

fun upload_refs :: "(bytes \<Rightarrow> string list option) \<Rightarrow> blob_ref list \<Rightarrow> uploaded list option" where
  "upload_refs upload [] = Some []"
| "upload_refs upload (r # rs) =
     (case (case r_blob r of
              Some blob \<Rightarrow>
                (case upload blob of
                   None \<Rightarrow> None
                 | Some files \<Rightarrow>
                     Some \<lparr>u_path = r_path r,
                           u_file_url = (case files of [] \<Rightarrow> None | f # fs \<Rightarrow> Some f),
                           u_base64 = None, u_type = r_type r\<rparr>)
            | None \<Rightarrow>
                Some \<lparr>u_path = r_path r, u_file_url = None,
                      u_base64 = r_data r, u_type = r_type r\<rparr>) of
        None \<Rightarrow> None
      | Some u \<Rightarrow> (case upload_refs upload rs of None \<Rightarrow> None | Some us \<Rightarrow> Some (u # us)))"

text \<open>
  The second phase (lines 685-704): \<open>r.forEach(...)\<close> writes into \<open>data\<close>. An empty string is falsy. An
  exception ends the loop and is passed to \<open>.catch(console.log)\<close>; \<open>res\<close> is not called.
\<close>

fun reinsert :: "json \<Rightarrow> uploaded list \<Rightarrow> exn + json" where
  "reinsert data [] = Inr data"
| "reinsert data (u # us) =
     (case (if u_base64 u \<noteq> None \<and> u_base64 u \<noteq> Some [] then
              update_object data (case u_base64 u of Some s \<Rightarrow> JStr s | None \<Rightarrow> JUndefined)
                (u_path u)
            else if u_type u = Some ''Gallery'' then
              update_object data (case u_file_url u of Some f \<Rightarrow> JStr f | None \<Rightarrow> JUndefined)
                (u_path u)
            else if u_file_url u \<noteq> None \<and> u_file_url u \<noteq> Some [] then
              update_object data
                (JObj [(''is_file'', JBool True),
                       (''name'', JStr (case u_file_url u of Some f \<Rightarrow> f | None \<Rightarrow> [])),
                       (''data'', JNull)])
                (u_path u)
            else Inr data) of
        Inl e \<Rightarrow> Inl e
      | Inr data' \<Rightarrow> reinsert data' us)"

text \<open>
  \<open>handle_blob(endpoint, data, api_info, token)\<close> (lines 659-706); \<open>data\<close> is the array of arguments. The
  result is \<open>None\<close> when the promise does not resolve: it rejects when the walk rejects
  (line 665), and it stays pending when an upload or the reinsertion throws.
\<close>

definition handle_blob ::
  "platform \<Rightarrow> (bytes \<Rightarrow> string list option) \<Rightarrow> json list \<Rightarrow>
   js_api_data endpoint_info option \<Rightarrow> json option" where
  "handle_blob pf upload data api_info =
     (case walk_and_store_blobs pf api_info (JArr data) None [] True of
        None \<Rightarrow> None
      | Some blob_refs \<Rightarrow>
          (case upload_refs upload blob_refs of
             None \<Rightarrow> None
           | Some r \<Rightarrow>
               (case reinsert (JArr data) r of Inl e \<Rightarrow> None | Inr data' \<Rightarrow> Some data')))"

subsection \<open>Binary leaves, paths and objects\<close>

text \<open>
  The binary leaves the walk can reach: the buffers and blobs that are the value itself,
  an element of an array or an own property of an object, at any depth.
\<close>

fun binary_leaves :: "json \<Rightarrow> nat"
  and binary_leaves_array :: "json list \<Rightarrow> nat"
  and binary_leaves_object :: "(string \<times> json) list \<Rightarrow> nat"
where
  "binary_leaves (JBuffer b) = 1"
| "binary_leaves (JBlob b) = 1"
| "binary_leaves (JArr xs) = binary_leaves_array xs"
| "binary_leaves (JObj kvs) = binary_leaves_object kvs"
| "binary_leaves JUndefined = 0"
| "binary_leaves JNull = 0"
| "binary_leaves (JBool b) = 0"
| "binary_leaves (JNum n) = 0"
| "binary_leaves (JStr s) = 0"
| "binary_leaves_array [] = 0"
| "binary_leaves_array (x # xs) = binary_leaves x + binary_leaves_array xs"
| "binary_leaves_object [] = 0"
| "binary_leaves_object ((k, v) # kvs) = binary_leaves v + binary_leaves_object kvs"

fun is_binary :: "json \<Rightarrow> bool" where
  "is_binary (JBuffer b) = True"
| "is_binary (JBlob b) = True"
| "is_binary x = False"

text \<open>Indexing a tree successively by the components of a path.\<close>

fun follow :: "json \<Rightarrow> path_elem list \<Rightarrow> json" where
  "follow t [] = t"
| "follow t (k # ks) = follow (js_index t k) ks"

text \<open>
  A JavaScript object has one property of a name. The lists of properties that stand for
  objects are those with distinct names, at every depth.
\<close>

fun distinct_keys :: "json \<Rightarrow> bool"
  and distinct_keys_array :: "json list \<Rightarrow> bool"
  and distinct_keys_object :: "(string \<times> json) list \<Rightarrow> bool"
where
  "distinct_keys (JArr xs) = distinct_keys_array xs"
| "distinct_keys (JObj kvs) = (distinct (map fst kvs) \<and> distinct_keys_object kvs)"
| "distinct_keys (JBuffer b) = True"
| "distinct_keys (JBlob b) = True"
| "distinct_keys JUndefined = True"
| "distinct_keys JNull = True"
| "distinct_keys (JBool b) = True"
| "distinct_keys (JNum n) = True"
| "distinct_keys (JStr s) = True"
| "distinct_keys_array [] = True"
| "distinct_keys_array (x # xs) = (distinct_keys x \<and> distinct_keys_array xs)"
| "distinct_keys_object [] = True"
| "distinct_keys_object ((k, v) # kvs) = (distinct_keys v \<and> distinct_keys_object kvs)"

text \<open>No object of the value, at any depth, has an own property named \<open>hasOwnProperty\<close>.\<close>

fun plain_objects :: "json \<Rightarrow> bool"
  and plain_objects_array :: "json list \<Rightarrow> bool"
  and plain_objects_object :: "(string \<times> json) list \<Rightarrow> bool"
where
  "plain_objects (JArr xs) = plain_objects_array xs"
| "plain_objects (JObj kvs) =
     (map_of kvs ''hasOwnProperty'' = None \<and> plain_objects_object kvs)"
| "plain_objects (JBuffer b) = True"
| "plain_objects (JBlob b) = True"
| "plain_objects JUndefined = True"
| "plain_objects JNull = True"
| "plain_objects (JBool b) = True"
| "plain_objects (JNum n) = True"
| "plain_objects (JStr s) = True"
| "plain_objects_array [] = True"
| "plain_objects_array (x # xs) = (plain_objects x \<and> plain_objects_array xs)"
| "plain_objects_object [] = True"
| "plain_objects_object ((k, v) # kvs) = (plain_objects v \<and> plain_objects_object kvs)"

text \<open>
  Each element walk of an array completes once: the order of completion of \<open>n\<close> walks is
  a permutation of the indices below \<open>n\<close>.
\<close>

definition schedule_ok :: "platform \<Rightarrow> bool" where
  "schedule_ok pf =
     (\<forall>path n. distinct (completion pf path n) \<and> set (completion pf path n) = {..<n})"

section \<open>Configuration and the transport decision\<close>

text \<open>
  \<open>Config.dependencies\<close> is an array of records of which the client reads \<open>queue\<close> only.
  A record without that key has \<open>queue = JUndefined\<close>; the server's "no override" is
  \<open>JNull\<close>. The function index is \<open>None\<close> when \<open>api_map\<close> has no entry for the endpoint name
  (\<open>fn_index\<close> is then \<open>undefined\<close>).
\<close>

record dependency =
  queue :: json

record config =
  enable_queue :: bool
  dependencies :: "dependency list option"
  path :: string

text \<open>
  \<open>skip_queue(id, config)\<close> (lines 801-807) reads \<open>config?.dependencies?.[id]?.queue\<close>, which
  is \<open>undefined\<close> when a link of the chain is missing, and compares it with \<open>null\<close> by \<open>===\<close>.
\<close>

definition dependency_queue :: "int option \<Rightarrow> config \<Rightarrow> json" where
  "dependency_queue idx cfg =
     (case dependencies cfg of
        None \<Rightarrow> JUndefined
      | Some ds \<Rightarrow>
          (case idx of
             None \<Rightarrow> JUndefined
           | Some i \<Rightarrow> if 0 \<le> i \<and> i < int (length ds) then queue (ds ! nat i) else JUndefined))"

definition skip_queue :: "int option \<Rightarrow> config \<Rightarrow> bool" where
  "skip_queue idx cfg =
     (\<not> (if dependency_queue idx cfg = JNull then enable_queue cfg
         else truthy (dependency_queue idx cfg)) \<or> False)"

section \<open>Events and protocol frames\<close>

datatype status_kind = Pending | Generating | Complete | Error

record status =
  st_queue :: bool
  st_status :: status_kind
  st_message :: json
  st_eta :: json
  st_size :: json
  st_position :: json
  st_progress :: json

text \<open>A status object in which only \<open>queue\<close> and \<open>status\<close> are set.\<close>

definition bare_status :: "bool \<Rightarrow> status_kind \<Rightarrow> status" where
  "bare_status q s =
     \<lparr>st_queue = q, st_status = s, st_message = JUndefined, st_eta = JUndefined,
      st_size = JUndefined, st_position = JUndefined, st_progress = JUndefined\<rparr>"

datatype event_type = StatusT | DataT

text \<open>An event carries the endpoint string and the function index of the submission.\<close>

datatype event =
    StatusEvent string "int option" status
  | DataEvent string "int option" json

fun type_of_event :: "event \<Rightarrow> event_type" where
  "type_of_event (StatusEvent ep fi s) = StatusT"
| "type_of_event (DataEvent ep fi d) = DataT"

datatype message_type = HashM | DataM | UpdateM | CompleteM | GeneratingM | NoneM

record handled =
  h_type :: message_type
  h_status :: "status option"
  h_data :: json

definition QUEUE_FULL_MSG :: string where
  "QUEUE_FULL_MSG = ''This application is too busy. Keep trying!''"

definition BROKEN_CONNECTION_MSG :: string where
  "BROKEN_CONNECTION_MSG = ''Connection errored out.''"

text \<open>
  \<open>handle_message(data, last_status)\<close> (lines 926-1006). \<open>data.msg\<close> throws when the parsed frame is \<open>null\<close>;
  \<open>data.output.error\<close> and \<open>data.output.average_duration\<close> throw when \<open>output\<close> is nullish.
\<close>

definition handle_message :: "json \<Rightarrow> status_kind option \<Rightarrow> exn + handled" where
  "handle_message data last_status =
    (if nullish data then Inl TypeError
     else if js_get data ''msg'' = JStr ''send_data'' then
       Inr \<lparr>h_type = DataM, h_status = None, h_data = JUndefined\<rparr>
     else if js_get data ''msg'' = JStr ''send_hash'' then
       Inr \<lparr>h_type = HashM, h_status = None, h_data = JUndefined\<rparr>
     else if js_get data ''msg'' = JStr ''queue_full'' then
       Inr \<lparr>h_type = UpdateM,
            h_status = Some ((bare_status True Error) \<lparr>st_message := JStr QUEUE_FULL_MSG\<rparr>),
            h_data = JUndefined\<rparr>
     else if js_get data ''msg'' = JStr ''estimation'' then
       Inr \<lparr>h_type = UpdateM,
            h_status = Some ((bare_status True
                 (case last_status of Some s \<Rightarrow> s | None \<Rightarrow> Pending))
               \<lparr>st_size := js_get data ''queue_size'',
                st_position := js_get data ''rank'',
                st_eta := js_get data ''rank_eta''\<rparr>),
            h_data = JUndefined\<rparr>
     else if js_get data ''msg'' = JStr ''progress'' then
       Inr \<lparr>h_type = UpdateM,
            h_status = Some ((bare_status True Pending)
               \<lparr>st_progress := js_get data ''progress_data''\<rparr>),
            h_data = JUndefined\<rparr>
     else if js_get data ''msg'' = JStr ''process_generating'' then
       (if \<not> truthy (js_get data ''success'') \<and> nullish (js_get data ''output'')
        then Inl TypeError
        else
          Inr \<lparr>h_type = GeneratingM,
               h_status = Some ((bare_status True
                    (if truthy (js_get data ''success'') then Generating else Error))
                  \<lparr>st_message := (if \<not> truthy (js_get data ''success'')
                                   then js_get (js_get data ''output'') ''error'' else JNull),
                   st_progress := js_get data ''progress_data'',
                   st_eta := js_get data ''average_duration''\<rparr>),
               h_data = (if truthy (js_get data ''success'')
                         then js_get data ''output'' else JNull)\<rparr>)
     else if js_get data ''msg'' = JStr ''process_completed'' then
       (if nullish (js_get data ''output'') then Inl TypeError
        else
          Inr \<lparr>h_type = CompleteM,
               h_status = Some ((bare_status True
                    (if truthy (js_get data ''success'') then Complete else Error))
                  \<lparr>st_message := (if \<not> truthy (js_get data ''success'')
                                   then js_get (js_get data ''output'') ''error''
                                   else JUndefined),
                   st_progress := js_get data ''progress_data'',
                   st_eta := js_get (js_get data ''output'') ''average_duration''\<rparr>),
               h_data = (if truthy (js_get data ''success'')
                         then js_get data ''output'' else JNull)\<rparr>)
     else if js_get data ''msg'' = JStr ''process_starts'' then
       Inr \<lparr>h_type = UpdateM,
            h_status = Some ((bare_status True Pending)
               \<lparr>st_size := js_get data ''rank'', st_position := JNum 0\<rparr>),
            h_data = JUndefined\<rparr>
     else
       Inr \<lparr>h_type = NoneM, h_status = Some (bare_status True Error), h_data = JUndefined\<rparr>)"

section \<open>The client and its submissions\<close>

text \<open>
  \<open>client(...)\<close> (lines 164-530) holds, for all submissions made through it: \<open>config\<close>, \<open>api\<close>, \<open>session_hash\<close>,
  \<open>api_map\<close> (built by \<open>map_names_to_ids\<close>, taken as given), \<open>last_status\<close> and
  \<open>listener_map\<close>. A listener is a callback; it is identified by a number, and every
  invocation is recorded in \<open>c_calls\<close>. \<open>c_fired\<close> records every invocation of \<open>fire_event\<close>
  with the submission whose closure made it. An absent key of \<open>listener_map\<close> and an empty
  array behave alike (\<open>listener_map[type] || []\<close>), so the map is total.

  Each call of \<open>submit\<close> creates a closure with its own \<open>fn_index\<close>, \<open>_endpoint\<close>, \<open>payload\<close> and
  \<open>websocket\<close>; closures are numbered in creation order. \<open>s_posted\<close> tells that the POST of
  the skip-queue path is in flight.
\<close>

type_synonym listener = nat

record payload =
  p_data :: json
  p_event_data :: json
  p_fn_index :: "int option"

datatype outbound =
    HashReply "int option" string
  | DataReply "payload option" string

record socket =
  ws_closed :: bool
  ws_sent :: "outbound list"

record submission =
  s_endpoint :: string
  s_fn_index :: "int option"
  s_api_info :: "js_api_data endpoint_info option"
  s_data :: "json list"
  s_event_data :: json
  s_payload :: "payload option"
  s_websocket :: "socket option"
  s_posted :: bool

record client =
  c_config :: config
  c_api :: api
  c_session_hash :: string
  c_api_map :: "string \<Rightarrow> int option"
  c_last_status :: "int option \<Rightarrow> status_kind option"
  c_listener_map :: "event_type \<Rightarrow> listener list"
  c_submissions :: "submission list"
  c_calls :: "(listener \<times> event) list"
  c_fired :: "(nat \<times> event) list"

definition submission_of :: "client \<Rightarrow> nat \<Rightarrow> submission option" where
  "submission_of c sid =
     (if sid < length (c_submissions c) then Some (c_submissions c ! sid) else None)"

definition set_submission :: "nat \<Rightarrow> submission \<Rightarrow> client \<Rightarrow> client" where
  "set_submission sid s c = c\<lparr>c_submissions := (c_submissions c)[sid := s]\<rparr>"

text \<open>
  \<open>fire_event\<close>, \<open>on\<close> and \<open>off\<close> (lines 442-470) are closures of one \<open>submit\<close> call (\<open>sid\<close>),
  and all three work on the \<open>listener_map\<close> that \<open>client\<close> declares (line 194).
\<close>

definition fire_event :: "nat \<Rightarrow> event \<Rightarrow> client \<Rightarrow> client" where
  "fire_event sid ev c =
     c\<lparr>c_calls := c_calls c @ map (\<lambda>l. (l, ev)) (c_listener_map c (type_of_event ev)),
       c_fired := c_fired c @ [(sid, ev)]\<rparr>"

definition on :: "nat \<Rightarrow> event_type \<Rightarrow> listener \<Rightarrow> client \<Rightarrow> client" where
  "on sid eventType l c =
     c\<lparr>c_listener_map := (c_listener_map c)(eventType := c_listener_map c eventType @ [l])\<rparr>"

definition off :: "nat \<Rightarrow> event_type \<Rightarrow> listener \<Rightarrow> client \<Rightarrow> client" where
  "off sid eventType l c =
     c\<lparr>c_listener_map :=
         (c_listener_map c)(eventType := filter (\<lambda>x. x \<noteq> l) (c_listener_map c eventType))\<rparr>"

text \<open>\<open>endpoint.replace(/^\<bsol>//, "")\<close>: one leading slash is removed.\<close>

fun trim_endpoint :: "string \<Rightarrow> string" where
  "trim_endpoint [] = []"
| "trim_endpoint (ch # cs) = (if ch = CHR ''/'' then cs else ch # cs)"

text \<open>
  The synchronous part of \<open>submit\<close> (lines 270-290): the closure is created with \<open>fn_index\<close>, \<open>api_info\<close> and
  \<open>_endpoint\<close> set; \<open>payload\<close> and \<open>websocket\<close> are still undefined. The result is the
  number of the new closure and the client, or the exception of the read of \<open>api\<close>.
\<close>

definition submit :: "endpoint \<Rightarrow> json list \<Rightarrow> json \<Rightarrow> client \<Rightarrow> exn + nat \<times> client" where
  "submit ep data event_data c =
     (case resolve_api_info (c_api c) ep of
        Inl e \<Rightarrow> Inl e
      | Inr api_info \<Rightarrow>
          Inr (length (c_submissions c),
               c\<lparr>c_submissions := c_submissions c @
                   [\<lparr>s_endpoint = (case ep of EpNum n \<Rightarrow> ''/predict'' | EpName s \<Rightarrow> s),
                     s_fn_index = (case ep of EpNum n \<Rightarrow> Some n
                                   | EpName s \<Rightarrow> c_api_map c (trim_endpoint s)),
                     s_api_info = api_info,
                     s_data = data,
                     s_event_data = event_data,
                     s_payload = None,
                     s_websocket = None,
                     s_posted = False\<rparr>]\<rparr>))"

text \<open>
  The callback run when \<open>handle_blob\<close> has resolved with \<open>_payload\<close> (lines 297-373): the
  transport decision. On the skip-queue path the status event is fired and the POST is
  made; on the queued path the status event is fired and the socket is opened.
\<close>

definition submit_then :: "nat \<Rightarrow> json \<Rightarrow> client \<Rightarrow> client" where
  "submit_then sid p c =
     (case submission_of c sid of
        None \<Rightarrow> c
      | Some s \<Rightarrow>
          (if skip_queue (s_fn_index s) (c_config c) then
             set_submission sid
               (s\<lparr>s_payload := Some \<lparr>p_data = p, p_event_data = s_event_data s,
                                     p_fn_index = s_fn_index s\<rparr>,
                  s_posted := True\<rparr>)
               (fire_event sid
                  (StatusEvent (s_endpoint s) (s_fn_index s) (bare_status False Pending)) c)
           else
             set_submission sid
               (s\<lparr>s_payload := Some \<lparr>p_data = p, p_event_data = s_event_data s,
                                     p_fn_index = s_fn_index s\<rparr>,
                  s_websocket := Some \<lparr>ws_closed = False, ws_sent = []\<rparr>\<rparr>)
               (fire_event sid
                  (StatusEvent (s_endpoint s) (s_fn_index s) (bare_status True Pending)) c)))"

text \<open>
  \<open>post_data\<close> (lines 53-76): a failed \<open>fetch\<close> is turned into the pair of an error object and 500; a body
  that is not JSON makes \<open>response.json()\<close> reject.
\<close>

datatype fetch_outcome = FetchFailed | Response "json option" int

definition post_data :: "fetch_outcome \<Rightarrow> exn + json \<times> int" where
  "post_data r =
     (case r of
        FetchFailed \<Rightarrow> Inr (JObj [(''error'', JStr BROKEN_CONNECTION_MSG)], 500)
      | Response None code \<Rightarrow> Inl SyntaxError
      | Response (Some output) code \<Rightarrow> Inr (output, code))"

text \<open>
  The \<open>.then\<close> callback of the POST (lines 318-345); \<open>output.average_duration\<close> and
  \<open>output.error\<close> throw on a nullish body.
\<close>

definition post_then :: "nat \<Rightarrow> json \<Rightarrow> int \<Rightarrow> client \<Rightarrow> exn + client" where
  "post_then sid output status_code c =
     (case submission_of c sid of
        None \<Rightarrow> Inr c
      | Some s \<Rightarrow>
          (if nullish output then Inl TypeError
           else if status_code = 200 then
             Inr (fire_event sid
                    (DataEvent (s_endpoint s) (s_fn_index s) (js_get output ''data''))
                    (fire_event sid
                       (StatusEvent (s_endpoint s) (s_fn_index s)
                          ((bare_status False Complete)
                             \<lparr>st_eta := js_get output ''average_duration''\<rparr>)) c))
           else
             Inr (fire_event sid
                    (StatusEvent (s_endpoint s) (s_fn_index s)
                       ((bare_status False Error) \<lparr>st_message := js_get output ''error''\<rparr>)) c)))"

text \<open>
  The \<open>.catch\<close> callback (lines 346-355); \<open>e_message\<close> is \<open>e.message\<close>, a text chosen by the JavaScript engine.
\<close>

definition post_catch :: "nat \<Rightarrow> string \<Rightarrow> client \<Rightarrow> client" where
  "post_catch sid e_message c =
     (case submission_of c sid of
        None \<Rightarrow> c
      | Some s \<Rightarrow>
          fire_event sid
            (StatusEvent (s_endpoint s) (s_fn_index s)
               ((bare_status False Error) \<lparr>st_message := JStr e_message\<rparr>)) c)"

text \<open>\<open>post_data(...).then(...).catch(...)\<close>, once the request has settled.\<close>

definition post_settled :: "nat \<Rightarrow> (exn \<Rightarrow> string) \<Rightarrow> fetch_outcome \<Rightarrow> client \<Rightarrow> client" where
  "post_settled sid message_of r c =
     (case post_data r of
        Inl e \<Rightarrow> post_catch sid (message_of e) c
      | Inr (output, status_code) \<Rightarrow>
          (case post_then sid output status_code c of
             Inl e \<Rightarrow> post_catch sid (message_of e) c
           | Inr c' \<Rightarrow> c'))"

text \<open>
  \<open>websocket.close()\<close> and \<open>websocket.send(...)\<close> on the socket of a submission. \<open>ws_closed\<close>
  records that \<open>close()\<close> has been called, \<open>ws_sent\<close> the calls of \<open>send\<close>. What the socket
  does with a \<open>send\<close> after \<open>close()\<close> is left to it; no event of the client depends on
  it, as the two branches that call \<open>send\<close> fire none.
\<close>

definition websocket_close :: "nat \<Rightarrow> client \<Rightarrow> exn + client" where
  "websocket_close sid c =
     (case submission_of c sid of
        None \<Rightarrow> Inr c
      | Some s \<Rightarrow>
          (case s_websocket s of
             None \<Rightarrow> Inl TypeError
           | Some ws \<Rightarrow>
               Inr (set_submission sid (s\<lparr>s_websocket := Some (ws\<lparr>ws_closed := True\<rparr>)\<rparr>) c)))"

definition websocket_send :: "nat \<Rightarrow> outbound \<Rightarrow> client \<Rightarrow> exn + client" where
  "websocket_send sid m c =
     (case submission_of c sid of
        None \<Rightarrow> Inr c
      | Some s \<Rightarrow>
          (case s_websocket s of
             None \<Rightarrow> Inl TypeError
           | Some ws \<Rightarrow>
               Inr (set_submission sid
                      (s\<lparr>s_websocket := Some (ws\<lparr>ws_sent := ws_sent ws @ [m]\<rparr>)\<rparr>) c)))"

text \<open>The trailing \<open>if (data) fire_event({type: "data", data: data.data, ...})\<close>.\<close>

definition fire_data :: "nat \<Rightarrow> submission \<Rightarrow> handled \<Rightarrow> client \<Rightarrow> client" where
  "fire_data sid s h c =
     (if truthy (h_data h)
      then fire_event sid (DataEvent (s_endpoint s) (s_fn_index s) (js_get (h_data h) ''data'')) c
      else c)"

text \<open>
  \<open>websocket.onmessage\<close> (lines 387-438), on the parsed frame (\<open>_data\<close> in the source; on
  a text that is not JSON, \<open>JSON.parse\<close> throws and nothing else happens). An exception of
  \<open>handle_message\<close> leaves the handler before any effect. The branch for \<open>hash\<close> returns
  before the trailing test of \<open>data\<close>. For the types \<open>complete\<close> and \<open>generating\<close>,
  \<open>handle_message\<close> always sets \<open>status\<close>; an event without a status is not a value of
  \<open>event\<close>, and the two branches for it, which are never taken, end the handler.
\<close>

definition onmessage :: "nat \<Rightarrow> json \<Rightarrow> client \<Rightarrow> exn + client" where
  "onmessage sid frame c =
     (case submission_of c sid of
        None \<Rightarrow> Inr c
      | Some s \<Rightarrow>
          (case handle_message frame (c_last_status c (s_fn_index s)) of
             Inl e \<Rightarrow> Inl e
           | Inr h \<Rightarrow>
               (if h_type h = UpdateM \<and> h_status h \<noteq> None then
                  (case h_status h of
                     None \<Rightarrow> Inr c
                   | Some st \<Rightarrow>
                       (if st_status st = Error then
                          (case websocket_close sid
                                  (fire_event sid
                                     (StatusEvent (s_endpoint s) (s_fn_index s) st) c) of
                             Inl e \<Rightarrow> Inl e
                           | Inr c' \<Rightarrow> Inr (fire_data sid s h c'))
                        else
                          Inr (fire_data sid s h
                                 (fire_event sid
                                    (StatusEvent (s_endpoint s) (s_fn_index s) st) c))))
                else if h_type h = HashM then
                  websocket_send sid (HashReply (s_fn_index s) (c_session_hash c)) c
                else if h_type h = DataM then
                  (case websocket_send sid (DataReply (s_payload s) (c_session_hash c)) c of
                     Inl e \<Rightarrow> Inl e
                   | Inr c' \<Rightarrow> Inr (fire_data sid s h c'))
                else if h_type h = CompleteM then
                  (case h_status h of
                     None \<Rightarrow> Inl TypeError
                   | Some st \<Rightarrow>
                       (case websocket_close sid
                               (fire_event sid
                                  (StatusEvent (s_endpoint s) (s_fn_index s)
                                     (st\<lparr>st_queue := True\<rparr>)) c) of
                          Inl e \<Rightarrow> Inl e
                        | Inr c' \<Rightarrow> Inr (fire_data sid s h c')))
                else if h_type h = GeneratingM then
                  (case h_status h of
                     None \<Rightarrow> Inl TypeError
                   | Some st \<Rightarrow>
                       Inr (fire_data sid s h
                              (fire_event sid
                                 (StatusEvent (s_endpoint s) (s_fn_index s)
                                    (st\<lparr>st_queue := True\<rparr>)) c)))
                else Inr (fire_data sid s h c))))"

text \<open>\<open>websocket.onclose\<close> (lines 374-385)\<close>

definition onclose :: "nat \<Rightarrow> bool \<Rightarrow> client \<Rightarrow> client" where
  "onclose sid wasClean c =
     (case submission_of c sid of
        None \<Rightarrow> c
      | Some s \<Rightarrow>
          (if \<not> wasClean then
             fire_event sid
               (StatusEvent (s_endpoint s) (s_fn_index s)
                  ((bare_status True Error) \<lparr>st_message := JStr BROKEN_CONNECTION_MSG\<rparr>)) c
           else c))"

text \<open>
  \<open>cancel()\<close> (lines 472-489) is asynchronous: it fires its event and starts the reset request
  (\<open>cancel\<close>); when that request has settled, with or without error, it calls
  \<open>websocket.close()\<close> (\<open>cancel_resume\<close>), which throws when the submission has no socket.
\<close>

definition cancel :: "nat \<Rightarrow> client \<Rightarrow> client" where
  "cancel sid c =
     (case submission_of c sid of
        None \<Rightarrow> c
      | Some s \<Rightarrow>
          fire_event sid
            (StatusEvent (s_endpoint s) (s_fn_index s) (bare_status False Complete)) c)"

definition cancel_resume :: "nat \<Rightarrow> client \<Rightarrow> exn + client" where
  "cancel_resume sid c = websocket_close sid c"

subsection \<open>Runs of a client\<close>

text \<open>
  What the caller and the environment do to a client, one callback at a time. A POST
  settles once, and the uploads of a submission settle once, with the answers \<open>upload\<close> of
  the server. A frame is handled by \<open>onmessage\<close> whenever the socket of the submission
  delivers one: the handler is installed when the socket is created (line 387) and tests
  no state of the socket, so a frame that the socket implementation still delivers after
  \<open>close()\<close> has been called is handled like any other. A callback that throws ends there;
  the handlers above throw before any effect or not at all.
\<close>

record environment =
  e_platform :: platform
  e_message :: "exn \<Rightarrow> string"

datatype action =
    Submit endpoint "json list" json
  | UploadsSettled nat "bytes \<Rightarrow> string list option"
  | On nat event_type listener
  | Off nat event_type listener
  | PostSettled nat fetch_outcome
  | Frame nat json
  | SocketClosed nat bool
  | Cancel nat
  | ResetSettled nat

definition has_socket :: "client \<Rightarrow> nat \<Rightarrow> bool" where
  "has_socket c sid =
     (case submission_of c sid of None \<Rightarrow> False | Some s \<Rightarrow> s_websocket s \<noteq> None)"

text \<open>The socket of the submission exists and \<open>close()\<close> has not been called on it.\<close>

definition socket_open :: "client \<Rightarrow> nat \<Rightarrow> bool" where
  "socket_open c sid =
     (case submission_of c sid of
        None \<Rightarrow> False
      | Some s \<Rightarrow> (case s_websocket s of None \<Rightarrow> False | Some ws \<Rightarrow> \<not> ws_closed ws))"

definition or_unchanged :: "client \<Rightarrow> exn + client \<Rightarrow> client" where
  "or_unchanged c r = (case r of Inl e \<Rightarrow> c | Inr c' \<Rightarrow> c')"

fun step :: "environment \<Rightarrow> action \<Rightarrow> client \<Rightarrow> client" where
  "step env (Submit ep data event_data) c =
     (case submit ep data event_data c of Inl e \<Rightarrow> c | Inr (sid, c') \<Rightarrow> c')"
| "step env (UploadsSettled sid upload) c =
     (case submission_of c sid of
        None \<Rightarrow> c
      | Some s \<Rightarrow>
          if s_payload s = None then
            (case handle_blob (e_platform env) upload (s_data s) (s_api_info s) of
               None \<Rightarrow> c
             | Some p \<Rightarrow> submit_then sid p c)
          else c)"
| "step env (On sid ty l) c = on sid ty l c"
| "step env (Off sid ty l) c = off sid ty l c"
| "step env (PostSettled sid r) c =
     (case submission_of c sid of
        None \<Rightarrow> c
      | Some s \<Rightarrow>
          if s_posted s
          then post_settled sid (e_message env) r (set_submission sid (s\<lparr>s_posted := False\<rparr>) c)
          else c)"
| "step env (Frame sid d) c =
     (if has_socket c sid then or_unchanged c (onmessage sid d c) else c)"
| "step env (SocketClosed sid wasClean) c = onclose sid wasClean c"
| "step env (Cancel sid) c = cancel sid c"
| "step env (ResetSettled sid) c = or_unchanged c (cancel_resume sid c)"

fun run :: "environment \<Rightarrow> action list \<Rightarrow> client \<Rightarrow> client" where
  "run env [] c = c"
| "run env (a # as) c = run env as (step env a c)"

text \<open>A client right after \<open>client(...)\<close> has resolved: nothing registered, nothing submitted.\<close>

definition new_client :: "config \<Rightarrow> api \<Rightarrow> string \<Rightarrow> (string \<Rightarrow> int option) \<Rightarrow> client" where
  "new_client cfg a session api_map =
     \<lparr>c_config = cfg, c_api = a, c_session_hash = session, c_api_map = api_map,
      c_last_status = (\<lambda>fi. None), c_listener_map = (\<lambda>ty. []),
      c_submissions = [], c_calls = [], c_fired = []\<rparr>"

section \<open>Cold start: polling the space status\<close>

datatype space_state = SpSleeping | SpRunning | SpBuilding | SpError | SpSpaceError

datatype load_state = LoadPending | LoadComplete | LoadError

record space_status =
  sp_status :: space_state
  sp_load_status :: load_state
  sp_message :: string
  sp_detail :: json
  sp_discussions_enabled :: "bool option"

text \<open>
  \<open>check_space_status(id, type, status_callback)\<close> (lines 842-924), one poll. \<open>response\<close> is the parsed body
  of the status request, \<open>None\<close> when \<open>fetch\<close> or \<open>response.json()\<close> threw or the status was not
  200. The result is the state after the callback and the delay (in milliseconds) of the
  \<open>setTimeout\<close> that schedules the next poll, if one is set. Destructuring
  \<open>{runtime: {stage}}\<close> throws when \<open>runtime\<close> is nullish; nothing is called then.
  \<open>discussions_enabled\<close> is the helper of that name from \<open>utils\<close>, taken as given.
\<close>

definition check_space_status ::
  "(json \<Rightarrow> bool) \<Rightarrow> json option \<Rightarrow> (space_status \<Rightarrow> 'w \<Rightarrow> 'w) \<Rightarrow> 'w \<Rightarrow> 'w \<times> nat option" where
  "check_space_status discussions_enabled response status_callback w =
     (case response of
        None \<Rightarrow>
          (status_callback
             \<lparr>sp_status = SpError, sp_load_status = LoadError,
              sp_message = ''Could not get space status'', sp_detail = JStr ''NOT_FOUND'',
              sp_discussions_enabled = None\<rparr> w, None)
      | Some r \<Rightarrow>
          if \<not> truthy r then (w, None)
          else if nullish (js_get r ''runtime'') then (w, None)
          else if js_get (js_get r ''runtime'') ''stage'' = JStr ''STOPPED''
                \<or> js_get (js_get r ''runtime'') ''stage'' = JStr ''SLEEPING'' then
            (status_callback
               \<lparr>sp_status = SpSleeping, sp_load_status = LoadPending,
                sp_message = ''Space is asleep. Waking it up...'',
                sp_detail = js_get (js_get r ''runtime'') ''stage'',
                sp_discussions_enabled = None\<rparr> w, Some 1000)
          else if js_get (js_get r ''runtime'') ''stage'' = JStr ''RUNNING''
                \<or> js_get (js_get r ''runtime'') ''stage'' = JStr ''RUNNING_BUILDING'' then
            (status_callback
               \<lparr>sp_status = SpRunning, sp_load_status = LoadComplete,
                sp_message = [],
                sp_detail = js_get (js_get r ''runtime'') ''stage'',
                sp_discussions_enabled = None\<rparr> w, None)
          else if js_get (js_get r ''runtime'') ''stage'' = JStr ''BUILDING'' then
            (status_callback
               \<lparr>sp_status = SpBuilding, sp_load_status = LoadPending,
                sp_message = ''Space is building...'',
                sp_detail = js_get (js_get r ''runtime'') ''stage'',
                sp_discussions_enabled = None\<rparr> w, Some 1000)
          else
            (status_callback
               \<lparr>sp_status = SpSpaceError, sp_load_status = LoadError,
                sp_message = ''This space is experiencing an issue.'',
                sp_detail = js_get (js_get r ''runtime'') ''stage'',
                sp_discussions_enabled = Some (discussions_enabled (js_get r ''id''))\<rparr> w,
             None))"

text \<open>
  The state of a starting client: the invocations of the caller's \<open>status_callback\<close>, the
  calls of \<open>res\<close> (each resolves the promise of \<open>client\<close> with the configuration), and the
  time spent waiting for timers.
\<close>

record wake =
  w_callbacks :: "space_status list"
  w_resolved :: "config list"
  w_clock :: nat

definition could_not_load :: space_status where
  "could_not_load =
     \<lparr>sp_status = SpError, sp_load_status = LoadError,
      sp_message = ''Could not load this space.'', sp_detail = JStr ''NOT_FOUND'',
      sp_discussions_enabled = None\<rparr>"

text \<open>
  \<open>handle_space_sucess(status)\<close> (lines 212-230). \<open>has_callback\<close> tells whether the caller passed a
  \<open>status_callback\<close>; \<open>resolved\<close> is the outcome of the new \<open>resolve_config\<close>, \<open>None\<close> when it
  throws (\<open>view_api\<close> catches its own exceptions).
\<close>

definition handle_space_sucess :: "bool \<Rightarrow> config option \<Rightarrow> space_status \<Rightarrow> wake \<Rightarrow> wake" where
  "handle_space_sucess has_callback resolved st w =
     (let w1 = (if has_callback then w\<lparr>w_callbacks := w_callbacks w @ [st]\<rparr> else w) in
      if sp_status st = SpRunning then
        (case resolved of
           Some cfg \<Rightarrow> w1\<lparr>w_resolved := w_resolved w1 @ [cfg]\<rparr>
         | None \<Rightarrow>
             if has_callback then w1\<lparr>w_callbacks := w_callbacks w1 @ [could_not_load]\<rparr>
             else w1)
      else w1)"

text \<open>
  The polls of one start, answered in turn by \<open>responses\<close>: a poll that sets its timer is
  followed, after the delay, by the next poll; a poll that sets none is the last. When
  the answers run out the next poll is still pending.
\<close>

fun wake_poll ::
  "(json \<Rightarrow> bool) \<Rightarrow> bool \<Rightarrow> config option \<Rightarrow> json option list \<Rightarrow> wake \<Rightarrow> wake" where
  "wake_poll discussions_enabled has_callback resolved [] w = w"
| "wake_poll discussions_enabled has_callback resolved (r # rs) w =
     (case check_space_status discussions_enabled r
             (handle_space_sucess has_callback resolved) w of
        (w', None) \<Rightarrow> w'
      | (w', Some delay) \<Rightarrow>
          wake_poll discussions_enabled has_callback resolved rs
            (w'\<lparr>w_clock := w_clock w' + delay\<rparr>))"

text \<open>
  The body of \<open>client(...)\<close> after \<open>process_endpoint\<close> (lines 232-252): \<open>first\<close> is the outcome of the first
  \<open>resolve_config\<close>; when it throws and the reference names a space, the polls start.
\<close>

definition client_start ::
  "(json \<Rightarrow> bool) \<Rightarrow> bool \<Rightarrow> config option \<Rightarrow> bool \<Rightarrow> config option \<Rightarrow>
   json option list \<Rightarrow> wake" where
  "client_start discussions_enabled has_callback first has_space_id resolved responses =
     (case first of
        Some cfg \<Rightarrow> \<lparr>w_callbacks = [], w_resolved = [cfg], w_clock = 0\<rparr>
      | None \<Rightarrow>
          if has_space_id then
            wake_poll discussions_enabled has_callback resolved responses
              \<lparr>w_callbacks = [], w_resolved = [], w_clock = 0\<rparr>
          else
            \<lparr>w_callbacks = (if has_callback then [could_not_load] else []),
             w_resolved = [], w_clock = 0\<rparr>)"

text \<open>The body of a status response with the given stage.\<close>

definition stage_response :: "string \<Rightarrow> json option" where
  "stage_response stage =
     Some (JObj [(''id'', JStr ''user/space''), (''runtime'', JObj [(''stage'', JStr stage)])])"

text \<open>What a fired event shows of a status: the lifecycle state, and the message.\<close>

fun status_of :: "event \<Rightarrow> status_kind option" where
  "status_of (StatusEvent ep fi st) = Some (st_status st)"
| "status_of (DataEvent ep fi d) = None"

fun message_of :: "event \<Rightarrow> json" where
  "message_of (StatusEvent ep fi st) = st_message st"
| "message_of (DataEvent ep fi d) = JUndefined"

section \<open>Example values\<close>

text \<open>
  Concrete inputs for the examples below. \<open>example_platform\<close> is a Node platform after
  \<open>client\<close> has run. Its two encoders and its order of completion (the last element of an
  array first) are stand-ins; no property depends on what they compute.
\<close>

definition example_platform :: platform where
  "example_platform =
     \<lparr>has_window = False, has_Blob = True, node_blob = True,
      to_base64 = (\<lambda>b. ''QUJD''),
      image_to_data_uri = (\<lambda>b. Some ''data:image/png;base64,QUJD''),
      completion = (\<lambda>path n. rev [0..<n])\<rparr>"

definition example_upload :: "bytes \<Rightarrow> string list option" where
  "example_upload b = Some [''/tmp/upload/0'']"

definition example_env :: environment where
  "example_env = \<lparr>e_platform = example_platform, e_message = (\<lambda>e. ''exception'')\<rparr>"

text \<open>
  A configuration with the queue enabled and four dependencies: no override (\<open>null\<close>),
  \<open>queue\<close> false, \<open>queue\<close> true, and a record without a \<open>queue\<close> property.
\<close>

definition example_config :: config where
  "example_config =
     \<lparr>enable_queue = True,
      dependencies = Some [\<lparr>queue = JNull\<rparr>, \<lparr>queue = JBool False\<rparr>,
                           \<lparr>queue = JBool True\<rparr>, \<lparr>queue = JUndefined\<rparr>],
      path = []\<rparr>"

definition example_api :: api where
  "example_api = Api \<lparr>named_endpoints = [], unnamed_endpoints = []\<rparr>"

text \<open>
  A schema entry with an image, a file and a gallery parameter, and arguments for it: an
  object holding an image blob, a buffer, and an array holding a blob.
\<close>

definition example_endpoint_info :: "js_api_data endpoint_info" where
  "example_endpoint_info =
     \<lparr>parameters =
        [\<lparr>j_label = ''picture'', j_component = ''Image'', j_type = Some ''string'',
           j_description = JUndefined\<rparr>,
         \<lparr>j_label = ''file'', j_component = ''File'', j_type = None,
           j_description = JUndefined\<rparr>,
         \<lparr>j_label = ''gallery'', j_component = ''Gallery'', j_type = None,
           j_description = JUndefined\<rparr>],
      returns = []\<rparr>"

definition example_arguments :: "json list" where
  "example_arguments =
     [JObj [(''image'', JBlob [137, 80]), (''name'', JStr ''cat.png'')],
      JBuffer [255],
      JArr [JNull, JBlob [1, 2, 3]]]"

text \<open>Arguments without a binary leaf.\<close>

definition plain_arguments :: "json list" where
  "plain_arguments = [JStr ''hello'', JObj [(''top_k'', JNum 3), (''tags'', JArr [JNull])]]"

text \<open>
  Arguments with an object that has an own property named \<open>hasOwnProperty\<close>, without and
  with a binary leaf.
\<close>

definition shadowing_arguments :: "json list" where
  "shadowing_arguments = [JObj [(''hasOwnProperty'', JNum 1)]]"

definition blob_and_shadowing_arguments :: "json list" where
  "blob_and_shadowing_arguments = [JBlob [1, 2, 3], JObj [(''hasOwnProperty'', JNum 1)]]"

text \<open>The table of \<open>api_map\<close>: \<open>"predict"\<close> is function 0 and \<open>"reverse"\<close> is function 1.\<close>

definition example_api_map :: "string \<Rightarrow> int option" where
  "example_api_map name =
     (if name = ''predict'' then Some 0 else if name = ''reverse'' then Some 1 else None)"

definition example_client :: client where
  "example_client = new_client example_config example_api ''k3x9'' example_api_map"

text \<open>The client after \<open>submit(0, [], null)\<close> has taken the queued path.\<close>

definition queued_client :: client where
  "queued_client =
     run example_env [Submit (EpNum 0) [] JNull, UploadsSettled 0 example_upload] example_client"

text \<open>A raw schema document with the named endpoint \<open>"/predict"\<close> and no unnamed endpoint.\<close>

definition example_raw_api :: "api_data api_info" where
  "example_raw_api =
     \<lparr>named_endpoints =
        [(''/predict'',
          \<lparr>parameters =
             [\<lparr>a_label = ''text'',
                a_type = JObj [(''type'', JStr ''string''), (''description'', JStr ''text'')],
                a_component = ''Textbox''\<rparr>],
           returns = []\<rparr>)],
      unnamed_endpoints = []\<rparr>"

text \<open>A \<open>discussions_enabled\<close> that finds the discussions of every space disabled.\<close>

definition example_discussions :: "json \<Rightarrow> bool" where
  "example_discussions space_name = False"

section \<open>Properties\<close>

subsection \<open>The transport decision\<close>

lemma submission_of_length: "submission_of c sid = Some s \<Longrightarrow> sid < length (c_submissions c)"
  by (simp add: submission_of_def split: if_splits)

text \<open>
  C1, as the code has it. Let \<open>q\<close> be \<open>config.dependencies[fn_index].queue\<close> of the submission,
  a boolean, \<open>null\<close> or absent (\<open>undefined\<close>: no such property, no such record, or no
  function index). When \<open>q\<close> is \<open>false\<close>, or absent, or \<open>null\<close> with \<open>enable_queue\<close> false,
  \<open>skip_queue\<close> holds and the callback that follows \<open>handle_blob\<close> takes the skip-queue path:
  it fires \<open>pending\<close> with \<open>queue: false\<close> and posts. When \<open>q\<close> is \<open>true\<close>, or \<open>null\<close> with
  \<open>enable_queue\<close> true, it takes the queued path: it fires \<open>pending\<close> with \<open>queue: true\<close> and
  opens a socket.
\<close>

theorem transport_decision:
  assumes "submission_of c sid = Some s"
    and "dependency_queue (s_fn_index s) (c_config c) \<in> {JUndefined, JNull, JBool True, JBool False}"
  shows "(dependency_queue (s_fn_index s) (c_config c) = JBool False
          \<or> dependency_queue (s_fn_index s) (c_config c) = JUndefined
          \<or> (dependency_queue (s_fn_index s) (c_config c) = JNull \<and> \<not> enable_queue (c_config c))
          \<longrightarrow> skip_queue (s_fn_index s) (c_config c)
            \<and> submission_of (submit_then sid p c) sid =
                Some (s\<lparr>s_payload := Some \<lparr>p_data = p, p_event_data = s_event_data s,
                                            p_fn_index = s_fn_index s\<rparr>,
                         s_posted := True\<rparr>)
            \<and> c_fired (submit_then sid p c) =
                c_fired c @ [(sid, StatusEvent (s_endpoint s) (s_fn_index s)
                                     (bare_status False Pending))])
       \<and> (dependency_queue (s_fn_index s) (c_config c) = JBool True
          \<or> (dependency_queue (s_fn_index s) (c_config c) = JNull \<and> enable_queue (c_config c))
          \<longrightarrow> \<not> skip_queue (s_fn_index s) (c_config c)
            \<and> submission_of (submit_then sid p c) sid =
                Some (s\<lparr>s_payload := Some \<lparr>p_data = p, p_event_data = s_event_data s,
                                            p_fn_index = s_fn_index s\<rparr>,
                         s_websocket := Some \<lparr>ws_closed = False, ws_sent = []\<rparr>\<rparr>)
            \<and> c_fired (submit_then sid p c) =
                c_fired c @ [(sid, StatusEvent (s_endpoint s) (s_fn_index s)
                                     (bare_status True Pending))])"
proof -
  have "sid < length (c_submissions c)"
    using assms(1) by (rule submission_of_length)
  with assms show ?thesis
    by (auto simp: submit_then_def skip_queue_def submission_of_def set_submission_def
                   fire_event_def)
qed

text \<open>
  The theorem at \<open>submit(0, [], null)\<close> on the example client: dependency 0 has \<open>queue: null\<close>
  and \<open>enable_queue\<close> is true, so the queued path is taken.
\<close>

theorem transport_decision_witness:
  "submission_of (step example_env (Submit (EpNum 0) [] JNull) example_client) 0 =
     Some \<lparr>s_endpoint = ''/predict'', s_fn_index = Some 0, s_api_info = None, s_data = [],
           s_event_data = JNull, s_payload = None, s_websocket = None, s_posted = False\<rparr>
   \<and> dependency_queue (Some 0) example_config = JNull
   \<and> enable_queue example_config
   \<and> \<not> skip_queue (Some 0) example_config
   \<and> submission_of
        (submit_then 0 (JArr []) (step example_env (Submit (EpNum 0) [] JNull) example_client)) 0 =
       Some \<lparr>s_endpoint = ''/predict'', s_fn_index = Some 0, s_api_info = None, s_data = [],
             s_event_data = JNull,
             s_payload = Some \<lparr>p_data = JArr [], p_event_data = JNull, p_fn_index = Some 0\<rparr>,
             s_websocket = Some \<lparr>ws_closed = False, ws_sent = []\<rparr>, s_posted = False\<rparr>
   \<and> c_fired
        (submit_then 0 (JArr []) (step example_env (Submit (EpNum 0) [] JNull) example_client)) =
       [(0, StatusEvent ''/predict'' (Some 0) (bare_status True Pending))]"
proof -
  let ?c = "step example_env (Submit (EpNum 0) [] JNull) example_client"
  let ?s = "\<lparr>s_endpoint = ''/predict'', s_fn_index = Some 0, s_api_info = None, s_data = [],
             s_event_data = JNull, s_payload = None, s_websocket = None, s_posted = False\<rparr>"
  have s: "submission_of ?c 0 = Some ?s"
    by (simp add: example_client_def new_client_def example_config_def
                  example_api_def example_api_map_def submit_def
                  resolve_api_info_def submission_of_def)
  have cfg: "c_config ?c = example_config"
    by (simp add: example_client_def new_client_def example_config_def
                  example_api_def example_api_map_def submit_def
                  resolve_api_info_def submission_of_def)
  have q: "dependency_queue (Some 0) example_config = JNull"
    by (simp add: example_config_def dependency_queue_def)
  have fired: "c_fired ?c = []"
    by (simp add: example_client_def new_client_def example_config_def
                  example_api_def example_api_map_def submit_def
                  resolve_api_info_def submission_of_def)
  have "dependency_queue (s_fn_index ?s) (c_config ?c)
          \<in> {JUndefined, JNull, JBool True, JBool False}"
    using q cfg by simp
  from transport_decision [OF s this, of "JArr []"] q cfg fired s
  show ?thesis
    by (simp add: example_config_def)
qed

text \<open>
  C1 as stated fails where the dependency record has no \<open>queue\<close> property: dependency 3 of
  the example configuration has none, \<open>enable_queue\<close> is true, and \<open>submit(3, [], null)\<close> takes
  the skip-queue path (it posts, and opens no socket). The same happens where the
  endpoint has no dependency record: \<open>api_map\<close> has no entry for \<open>"nothere"\<close>, the function
  index is \<open>undefined\<close>, and \<open>submit("nothere", [], null)\<close> takes the skip-queue path.
\<close>

theorem absent_queue_property_counterexample:
  "dependency_queue (Some 3) example_config = JUndefined
   \<and> enable_queue example_config
   \<and> skip_queue (Some 3) example_config
   \<and> map s_posted (c_submissions
        (run example_env [Submit (EpNum 3) [] JNull, UploadsSettled 0 example_upload]
           example_client)) = [True]
   \<and> map s_websocket (c_submissions
        (run example_env [Submit (EpNum 3) [] JNull, UploadsSettled 0 example_upload]
           example_client)) = [None]
   \<and> c_fired (run example_env [Submit (EpNum 3) [] JNull, UploadsSettled 0 example_upload]
        example_client) = [(0, StatusEvent ''/predict'' (Some 3) (bare_status False Pending))]
   \<and> map s_posted (c_submissions
        (run example_env [Submit (EpName ''nothere'') [] JNull, UploadsSettled 0 example_upload]
           example_client)) = [True]
   \<and> map s_websocket (c_submissions
        (run example_env [Submit (EpName ''nothere'') [] JNull, UploadsSettled 0 example_upload]
           example_client)) = [None]"
  by (simp add: example_client_def new_client_def example_config_def
                example_api_def example_api_map_def example_env_def
                example_platform_def example_upload_def submit_def
                resolve_api_info_def submission_of_def handle_blob_def in_order_def
                submit_then_def skip_queue_def dependency_queue_def
                set_submission_def fire_event_def bare_status_def)

subsection \<open>Frames\<close>

text \<open>The example client with its queued submission: the closure, and what was fired.\<close>

lemma queued_client_submission:
  "submission_of queued_client 0 =
     Some \<lparr>s_endpoint = ''/predict'', s_fn_index = Some 0, s_api_info = None, s_data = [],
           s_event_data = JNull,
           s_payload = Some \<lparr>p_data = JArr [], p_event_data = JNull, p_fn_index = Some 0\<rparr>,
           s_websocket = Some \<lparr>ws_closed = False, ws_sent = []\<rparr>, s_posted = False\<rparr>"
  by (simp add: queued_client_def example_client_def new_client_def
                example_config_def example_api_def example_api_map_def
                example_env_def example_platform_def example_upload_def
                submit_def resolve_api_info_def submission_of_def
                handle_blob_def in_order_def submit_then_def skip_queue_def
                dependency_queue_def set_submission_def fire_event_def
                bare_status_def)

lemma queued_client_fired:
  "c_fired queued_client = [(0, StatusEvent ''/predict'' (Some 0) (bare_status True Pending))]"
  by (simp add: queued_client_def example_client_def new_client_def
                example_config_def example_api_def example_api_map_def
                example_env_def example_platform_def example_upload_def
                submit_def resolve_api_info_def submission_of_def
                handle_blob_def in_order_def submit_then_def skip_queue_def
                dependency_queue_def set_submission_def fire_event_def
                bare_status_def)

lemma queued_client_open: "socket_open queued_client 0"
  using queued_client_submission by (simp add: socket_open_def)

text \<open>
  C10. A frame whose \<open>msg\<close> is none of the eight protocol tags changes nothing: no event is
  fired, no listener is called, nothing is sent and the socket is not closed. This holds
  for the handler itself (an exception it throws on a \<open>null\<close> frame has no effect either)
  and for the delivery of the frame to a client.
\<close>

theorem unrecognized_frame_ignored:
  assumes "js_get frame ''msg'' \<notin> JStr ` {''send_data'', ''send_hash'', ''queue_full'',
             ''estimation'', ''progress'', ''process_generating'', ''process_completed'',
             ''process_starts''}"
  shows "or_unchanged c (onmessage sid frame c) = c \<and> step env (Frame sid frame) c = c"
proof -
  have "or_unchanged c (onmessage sid frame c) = c"
    using assms
    by (cases "submission_of c sid")
       (auto simp: onmessage_def handle_message_def or_unchanged_def fire_data_def image_iff)
  then show ?thesis by simp
qed

theorem unrecognized_frame_ignored_witness:
  "socket_open queued_client 0
   \<and> or_unchanged queued_client
        (onmessage 0 (JObj [(''msg'', JStr ''heartbeat'')]) queued_client) = queued_client
   \<and> step example_env (Frame 0 (JObj [(''msg'', JStr ''heartbeat'')])) queued_client
       = queued_client"
proof -
  have "js_get (JObj [(''msg'', JStr ''heartbeat'')]) ''msg'' \<notin> JStr ` {''send_data'',
          ''send_hash'', ''queue_full'', ''estimation'', ''progress'', ''process_generating'',
          ''process_completed'', ''process_starts''}"
    by simp
  from unrecognized_frame_ignored [OF this, of queued_client 0 example_env]
    queued_client_open
  show ?thesis
    by (simp del: step.simps)
qed

text \<open>
  C3. On an open socket, a \<open>process_completed\<close> frame with \<open>success: false\<close> and an \<open>output\<close>
  fires exactly one event: a status event with status \<open>error\<close> whose message is
  \<open>output.error\<close>. Every status listener is called once with it, no data listener is
  called, and the socket is closed.
\<close>

theorem process_completed_failure:
  assumes "submission_of c sid = Some s" and "s_websocket s = Some ws" and "\<not> ws_closed ws"
    and "js_get frame ''msg'' = JStr ''process_completed''"
    and "js_get frame ''success'' = JBool False"
    and "\<not> nullish (js_get frame ''output'')"
  shows "\<exists>st. st_status st = Error
           \<and> st_message st = js_get (js_get frame ''output'') ''error''
           \<and> c_fired (step env (Frame sid frame) c) =
               c_fired c @ [(sid, StatusEvent (s_endpoint s) (s_fn_index s) st)]
           \<and> c_calls (step env (Frame sid frame) c) =
               c_calls c @ map (\<lambda>l. (l, StatusEvent (s_endpoint s) (s_fn_index s) st))
                              (c_listener_map c StatusT)
           \<and> submission_of (step env (Frame sid frame) c) sid =
               Some (s\<lparr>s_websocket := Some (ws\<lparr>ws_closed := True\<rparr>)\<rparr>)"
proof -
  have len: "sid < length (c_submissions c)"
    using assms(1) by (rule submission_of_length)
  have nn: "\<not> nullish frame"
    using assms(4) by (cases frame) auto
  have hs: "has_socket c sid"
    using assms(1,2) by (simp add: has_socket_def)
  let ?st = "(bare_status True Error)
               \<lparr>st_message := js_get (js_get frame ''output'') ''error'',
                st_progress := js_get frame ''progress_data'',
                st_eta := js_get (js_get frame ''output'') ''average_duration''\<rparr>"
  have hm: "handle_message frame (c_last_status c (s_fn_index s)) =
        Inr \<lparr>h_type = CompleteM, h_status = Some ?st, h_data = JNull\<rparr>"
    using assms(4-6) nn by (simp add: handle_message_def)
  have "onmessage sid frame c =
      Inr (set_submission sid (s\<lparr>s_websocket := Some (ws\<lparr>ws_closed := True\<rparr>)\<rparr>)
            (fire_event sid
               (StatusEvent (s_endpoint s) (s_fn_index s) (?st\<lparr>st_queue := True\<rparr>)) c))"
    using assms(1,2) len hm
    by (simp add: onmessage_def websocket_close_def fire_data_def submission_of_def
                  fire_event_def)
  then have st: "step env (Frame sid frame) c =
      set_submission sid (s\<lparr>s_websocket := Some (ws\<lparr>ws_closed := True\<rparr>)\<rparr>)
        (fire_event sid
           (StatusEvent (s_endpoint s) (s_fn_index s) (?st\<lparr>st_queue := True\<rparr>)) c)"
    using hs by (simp add: or_unchanged_def)
  show ?thesis
    unfolding st
    by (rule exI [of _ "?st\<lparr>st_queue := True\<rparr>"])
       (use len in \<open>simp add: bare_status_def set_submission_def fire_event_def
                              submission_of_def\<close>)
qed

theorem process_completed_failure_witness:
  "map (\<lambda>(sid, ev). (status_of ev, message_of ev))
     (c_fired (step example_env
        (Frame 0 (JObj [(''msg'', JStr ''process_completed''), (''success'', JBool False),
                        (''output'', JObj [(''error'', JStr ''out of memory'')])]))
        queued_client))
     = [(Some Pending, JUndefined), (Some Error, JStr ''out of memory'')]
   \<and> socket_open queued_client 0
   \<and> \<not> socket_open (step example_env
        (Frame 0 (JObj [(''msg'', JStr ''process_completed''), (''success'', JBool False),
                        (''output'', JObj [(''error'', JStr ''out of memory'')])]))
        queued_client) 0"
proof -
  let ?frame = "JObj [(''msg'', JStr ''process_completed''), (''success'', JBool False),
                      (''output'', JObj [(''error'', JStr ''out of memory'')])]"
  let ?ws = "\<lparr>ws_closed = False, ws_sent = []\<rparr>"
  let ?s = "\<lparr>s_endpoint = ''/predict'', s_fn_index = Some 0, s_api_info = None, s_data = [],
             s_event_data = JNull,
             s_payload = Some \<lparr>p_data = JArr [], p_event_data = JNull, p_fn_index = Some 0\<rparr>,
             s_websocket = Some ?ws, s_posted = False\<rparr>"
  have s: "submission_of queued_client 0 = Some ?s"
    by (rule queued_client_submission)
  note fired = queued_client_fired and op = queued_client_open
  from process_completed_failure [OF s, of ?ws ?frame example_env]
  obtain st where st: "st_status st = Error"
      "st_message st = JStr ''out of memory''"
      "c_fired (step example_env (Frame 0 ?frame) queued_client) =
         c_fired queued_client @ [(0, StatusEvent ''/predict'' (Some 0) st)]"
      "submission_of (step example_env (Frame 0 ?frame) queued_client) 0 =
         Some (?s\<lparr>s_websocket := Some (?ws\<lparr>ws_closed := True\<rparr>)\<rparr>)"
    by auto
  have "\<not> socket_open (step example_env (Frame 0 ?frame) queued_client) 0"
    unfolding socket_open_def st(4) by simp
  with st(1-3) fired op show ?thesis
    by (simp add: bare_status_def)
qed

text \<open>
  No callback of the client writes \<open>last_status\<close>: the record stays as \<open>client\<close> created it,
  empty.
\<close>

lemma step_last_status: "c_last_status (step env a c) = c_last_status c"
  by (cases a)
     (auto simp: submit_def resolve_api_info_def submission_of_def
                 handle_blob_def in_order_def submit_then_def skip_queue_def
                 dependency_queue_def set_submission_def fire_event_def
                 bare_status_def has_socket_def or_unchanged_def
                 onmessage_def handle_message_def fire_data_def
                 websocket_close_def websocket_send_def post_settled_def
                 post_data_def post_then_def post_catch_def cancel_def
                 cancel_resume_def on_def off_def onclose_def Let_def split: option.splits sum.splits if_splits prod.splits)

lemma run_last_status: "c_last_status (run env as c) = c_last_status c"
  by (induction as arbitrary: c) (simp_all add: step_last_status)

text \<open>
  C2 fails on the code. \<open>handle_message\<close> keeps the last status it is given, but
  \<open>onmessage\<close> gives it \<open>last_status[fn_index]\<close>, which is never written. So in every state
  a client can reach, whatever frames were handled before, an \<open>estimation\<close> frame on an
  open socket fires a status event with status \<open>pending\<close>; also right after a
  \<open>process_generating\<close> frame, when the last status fired was \<open>generating\<close>.
\<close>

theorem estimation_status_is_pending:
  assumes "c = run env acts (new_client cfg a session api_map)"
    and "submission_of c sid = Some s" and "socket_open c sid"
    and "js_get frame ''msg'' = JStr ''estimation''"
  shows "c_fired (step env (Frame sid frame) c) =
           c_fired c @ [(sid, StatusEvent (s_endpoint s) (s_fn_index s)
              ((bare_status True Pending)
                 \<lparr>st_size := js_get frame ''queue_size'',
                  st_position := js_get frame ''rank'',
                  st_eta := js_get frame ''rank_eta''\<rparr>))]"
proof -
  have "c_last_status c = (\<lambda>fi. None)"
    unfolding assms(1) run_last_status by (simp add: new_client_def)
  then have ls: "c_last_status c (s_fn_index s) = None"
    by simp
  have hs: "has_socket c sid"
    using assms(2,3) by (simp add: has_socket_def socket_open_def split: option.splits)
  have nn: "\<not> nullish frame"
    using assms(4) by (cases frame) auto
  have hm: "handle_message frame None =
      Inr \<lparr>h_type = UpdateM,
           h_status = Some ((bare_status True Pending)
                 \<lparr>st_size := js_get frame ''queue_size'',
                  st_position := js_get frame ''rank'',
                  st_eta := js_get frame ''rank_eta''\<rparr>),
           h_data = JUndefined\<rparr>"
    using assms(4) nn by (simp add: handle_message_def)
  show ?thesis
    using assms(2) hs ls hm
    by (simp add: onmessage_def or_unchanged_def fire_data_def fire_event_def bare_status_def)
qed

text \<open>
  The run \<open>submit(0, [], null)\<close>, a successful \<open>process_generating\<close> frame, an \<open>estimation\<close>
  frame: the events fired are \<open>pending\<close>, \<open>generating\<close>, the data event, \<open>pending\<close>.
\<close>

theorem estimation_status_is_pending_witness:
  "map (\<lambda>(sid, ev). status_of ev)
     (c_fired (run example_env
        [Submit (EpNum 0) [] JNull, UploadsSettled 0 example_upload,
         Frame 0 (JObj [(''msg'', JStr ''process_generating''), (''success'', JBool True),
                        (''output'', JObj [(''data'', JArr [JStr ''partial''])])]),
         Frame 0 (JObj [(''msg'', JStr ''estimation''), (''rank'', JNum 0),
                        (''queue_size'', JNum 1), (''rank_eta'', JNum 3)])]
        example_client))
   = [Some Pending, Some Generating, None, Some Pending]"
proof -
  let ?gen = "JObj [(''msg'', JStr ''process_generating''), (''success'', JBool True),
                    (''output'', JObj [(''data'', JArr [JStr ''partial''])])]"
  let ?est = "JObj [(''msg'', JStr ''estimation''), (''rank'', JNum 0),
                    (''queue_size'', JNum 1), (''rank_eta'', JNum 3)]"
  let ?acts = "[Submit (EpNum 0) [] JNull, UploadsSettled 0 example_upload, Frame 0 ?gen]"
  let ?c = "run example_env ?acts example_client"
  let ?s = "\<lparr>s_endpoint = ''/predict'', s_fn_index = Some 0, s_api_info = None, s_data = [],
             s_event_data = JNull,
             s_payload = Some \<lparr>p_data = JArr [], p_event_data = JNull, p_fn_index = Some 0\<rparr>,
             s_websocket = Some \<lparr>ws_closed = False, ws_sent = []\<rparr>, s_posted = False\<rparr>"
  have c: "?c = run example_env ?acts
                  (new_client example_config example_api ''k3x9'' example_api_map)"
    by (simp only: example_client_def)
  have s: "submission_of ?c 0 = Some ?s"
    by (simp add: example_client_def new_client_def example_config_def
                  example_api_def example_api_map_def example_env_def
                  example_platform_def example_upload_def submit_def
                  resolve_api_info_def submission_of_def handle_blob_def in_order_def
                  submit_then_def skip_queue_def dependency_queue_def
                  set_submission_def fire_event_def bare_status_def
                  has_socket_def or_unchanged_def onmessage_def
                  handle_message_def fire_data_def websocket_close_def
                  websocket_send_def)
  have op: "socket_open ?c 0"
    by (simp add: example_client_def new_client_def example_config_def
                  example_api_def example_api_map_def example_env_def
                  example_platform_def example_upload_def submit_def
                  resolve_api_info_def submission_of_def handle_blob_def in_order_def
                  submit_then_def skip_queue_def dependency_queue_def
                  set_submission_def fire_event_def bare_status_def
                  socket_open_def has_socket_def or_unchanged_def onmessage_def
                  handle_message_def fire_data_def websocket_close_def
                  websocket_send_def)
  have msg: "js_get ?est ''msg'' = JStr ''estimation''"
    by simp
  have before: "map (\<lambda>(sid, ev). status_of ev) (c_fired ?c)
                  = [Some Pending, Some Generating, None]"
    by (simp add: example_client_def new_client_def example_config_def
                  example_api_def example_api_map_def example_env_def
                  example_platform_def example_upload_def submit_def
                  resolve_api_info_def submission_of_def handle_blob_def in_order_def
                  submit_then_def skip_queue_def dependency_queue_def
                  set_submission_def fire_event_def bare_status_def
                  has_socket_def or_unchanged_def onmessage_def
                  handle_message_def fire_data_def websocket_close_def
                  websocket_send_def)
  have run: "run example_env (?acts @ [Frame 0 ?est]) example_client
               = step example_env (Frame 0 ?est) ?c"
    by (simp only: run.simps append.simps)
  from estimation_status_is_pending [OF c s op msg] before
  show ?thesis
    using run by (simp add: bare_status_def)
qed

subsection \<open>Cancellation\<close>




subsection \<open>Listeners\<close>

text \<open>
  C7 fails on the code: \<open>listener_map\<close> belongs to the client, not to the submission. Two
  submissions are made, to \<open>"/predict"\<close> (function 0) and to \<open>"/reverse"\<close> (function 1). A
  status listener is registered through the handle of the first only. When the second
  fires its \<open>pending\<close> event, that listener is called with it.
\<close>

theorem listener_called_for_other_submission:
  "c_fired (run example_env
      [Submit (EpName ''/predict'') [] JNull, Submit (EpName ''/reverse'') [] JNull,
       On 0 StatusT 1, UploadsSettled 1 example_upload]
      example_client)
     = [(1, StatusEvent ''/reverse'' (Some 1) (bare_status False Pending))]
   \<and> c_calls (run example_env
      [Submit (EpName ''/predict'') [] JNull, Submit (EpName ''/reverse'') [] JNull,
       On 0 StatusT 1, UploadsSettled 1 example_upload]
      example_client)
     = [(1, StatusEvent ''/reverse'' (Some 1) (bare_status False Pending))]"
  by (simp add: example_client_def new_client_def example_config_def
                example_api_def example_api_map_def example_env_def
                example_platform_def example_upload_def submit_def
                resolve_api_info_def submission_of_def handle_blob_def in_order_def
                submit_then_def skip_queue_def dependency_queue_def
                set_submission_def fire_event_def bare_status_def on_def)

subsection \<open>Blob extraction\<close>

text \<open>
  The references collected from the elements of an array are those of the elements,
  whatever the order of completion; when the order is a permutation of the indices, each
  is collected once.
\<close>

lemma set_in_order: "set (in_order order rs) \<subseteq> set rs"
  by (auto simp: in_order_def)

lemma concat_in_order_Nil: "\<forall>r \<in> set rss. r = [] \<Longrightarrow> concat (in_order order rss) = []"
  using set_in_order [of order rss] by fastforce

lemma in_order_permutation:
  fixes f :: "'a \<Rightarrow> nat"
  assumes "distinct order" and "set order = {..<length rs}"
  shows "sum_list (map f (in_order order rs)) = sum_list (map f rs)"
proof -
  have "filter (\<lambda>i. i < length rs) order = order"
    using assms(2) by (auto simp: filter_id_conv)
  then have "sum_list (map f (in_order order rs)) = sum_list (map (\<lambda>i. f (rs ! i)) order)"
    by (simp add: in_order_def comp_def)
  also have "\<dots> = sum (\<lambda>i. f (rs ! i)) (set order)"
    using assms(1) by (simp add: sum_list_distinct_conv_sum_set)
  also have "\<dots> = sum (\<lambda>i. f (rs ! i)) {0..<length rs}"
    using assms(2) by (simp add: atLeast0LessThan)
  also have "\<dots> = sum_list (map f rs)"
    by (simp add: sum_list_sum_nth)
  finally show ?thesis .
qed

text \<open>The steps of the two loops, read backwards from a walk that resolved.\<close>

lemma own_property_called:
  "map_of param ''hasOwnProperty'' = None \<Longrightarrow> k \<in> fst ` set param \<Longrightarrow>
     has_own_property param k = Some True"
proof -
  assume hop: "map_of param ''hasOwnProperty'' = None" and k: "k \<in> fst ` set param"
  from k have "map_of param k \<noteq> None"
    by (simp add: map_of_eq_None_iff)
  with hop show ?thesis
    by (simp add: has_own_property_def)
qed

lemma walk_array_Cons_Some:
  "walk_array pf api (x # xs) i ty p root = Some rss \<Longrightarrow>
     \<exists>r rs'. walk_and_store_blobs pf api x (if root then component_at api i else ty)
                (p @ [Idx i]) False = Some r
            \<and> walk_array pf api xs (Suc i) ty p root = Some rs' \<and> rss = r # rs'"
  by (cases root) (auto split: option.splits)

lemma walk_object_Cons_Some:
  "walk_object pf api param ((k, v) # kvs) p = Some rs \<Longrightarrow> k \<in> fst ` set param \<Longrightarrow>
     has_own_property param k = Some True
     \<and> (\<exists>r rs'. walk_and_store_blobs pf api v None (p @ [Key k]) False = Some r
               \<and> walk_object pf api param kvs p = Some rs' \<and> rs = r @ rs')"
  by (auto simp: has_own_property_def map_of_eq_None_iff split: option.splits if_splits)

text \<open>
  The walk rejects whenever an object of the value, at any depth, has an own property named
  \<open>hasOwnProperty\<close>, on every platform and whatever the value holds besides.
\<close>

lemma walk_rejects:
  "\<not> plain_objects t \<Longrightarrow> walk_and_store_blobs pf api t ty p root = None"
  "\<not> plain_objects_array xs \<Longrightarrow> walk_array pf api xs i ty p root = None"
  "(map_of param ''hasOwnProperty'' \<noteq> None \<and> kvs \<noteq> [])
     \<or> (\<not> plain_objects_object kvs \<and> fst ` set kvs \<subseteq> fst ` set param) \<Longrightarrow>
     walk_object pf api param kvs p = None"
proof (induct pf api t ty p root and pf api xs i ty p root and pf api param kvs p
      rule: walk_and_store_blobs_walk_array_walk_object.induct)
  case (1 pf api_info xs ty p root)
  then show ?case by simp
next
  case (4 pf api_info kvs ty p root)
  show ?case
  proof (cases "has_Blob pf")
    case False
    then show ?thesis by simp
  next
    case True
    from "4.prems" have "(map_of kvs ''hasOwnProperty'' \<noteq> None \<and> kvs \<noteq> [])
        \<or> (\<not> plain_objects_object kvs \<and> fst ` set kvs \<subseteq> fst ` set kvs)"
      by auto
    with "4.hyps" True show ?thesis by simp
  qed
next
  case (11 pf api_info x xs i ty p root)
  let ?w = "walk_and_store_blobs pf api_info x (if root then component_at api_info i else ty)
              (p @ [Idx i]) False"
  show ?case
  proof (cases ?w)
    case None
    then show ?thesis by (cases root) simp_all
  next
    case (Some r)
    with "11.hyps"(1) have "plain_objects x" by auto
    with "11.prems" have "\<not> plain_objects_array xs" by simp
    from "11.hyps"(2) [OF Some this] Some show ?thesis by (cases root) simp_all
  qed
next
  case (13 pf api_info param k v kvs p)
  show ?case
  proof (cases "map_of param ''hasOwnProperty''")
    case (Some f)
    then show ?thesis by (simp add: has_own_property_def)
  next
    case None
    with "13.prems" have np: "\<not> (plain_objects v \<and> plain_objects_object kvs)"
      and sub: "fst ` set ((k, v) # kvs) \<subseteq> fst ` set param"
      by auto
    from sub have "k \<in> fst ` set param" by simp
    with None have own: "has_own_property param k = Some True"
      by (rule own_property_called)
    show ?thesis
    proof (cases "walk_and_store_blobs pf api_info v None (p @ [Key k]) False")
      case None
      with own show ?thesis by simp
    next
      case (Some r)
      with "13.hyps"(1) [OF own] have "plain_objects v" by auto
      with np sub have "(map_of param ''hasOwnProperty'' \<noteq> None \<and> kvs \<noteq> [])
          \<or> (\<not> plain_objects_object kvs \<and> fst ` set kvs \<subseteq> fst ` set param)"
        by auto
      from "13.hyps"(2) [OF own _ Some this] own Some show ?thesis by simp
    qed
  qed
qed simp_all

text \<open>
  Where the global \<open>Blob\<close> is defined and no object has such a property, the walk of a
  value without a binary leaf resolves with no reference.
\<close>

lemma walk_without_binary_leaves:
  "has_Blob pf \<Longrightarrow> plain_objects t \<Longrightarrow> binary_leaves t = 0 \<Longrightarrow>
     walk_and_store_blobs pf api t ty p root = Some []"
  "has_Blob pf \<Longrightarrow> plain_objects_array xs \<Longrightarrow> binary_leaves_array xs = 0 \<Longrightarrow>
     \<exists>rss. walk_array pf api xs i ty p root = Some rss \<and> (\<forall>r \<in> set rss. r = [])"
  "has_Blob pf \<Longrightarrow> map_of param ''hasOwnProperty'' = None \<Longrightarrow> plain_objects_object kvs \<Longrightarrow>
     binary_leaves_object kvs = 0 \<Longrightarrow> walk_object pf api param kvs p = Some []"
proof (induct pf api t ty p root and pf api xs i ty p root and pf api param kvs p
      rule: walk_and_store_blobs_walk_array_walk_object.induct)
  case (1 pf api_info xs ty p root)
  then obtain rss where "walk_array pf api_info xs 0 ty p root = Some rss"
    "\<forall>r \<in> set rss. r = []"
    by auto
  then show ?case
    by (simp add: concat_in_order_Nil)
next
  case (11 pf api_info x xs i ty p root)
  let ?w = "walk_and_store_blobs pf api_info x (if root then component_at api_info i else ty)
              (p @ [Idx i]) False"
  from 11 have w: "?w = Some []" by simp
  from "11.hyps"(2) [OF w] "11.prems" obtain rss where
    "walk_array pf api_info xs (Suc i) ty p root = Some rss" "\<forall>r \<in> set rss. r = []"
    by auto
  with w show ?case
    by (cases root) simp_all
next
  case (13 pf api_info param k v kvs p)
  from "13.prems"(2) obtain own where own: "has_own_property param k = Some own"
    by (simp add: has_own_property_def)
  show ?case
  proof (cases own)
    case True
    from "13.hyps"(1) [OF own True] "13.prems"
    have w: "walk_and_store_blobs pf api_info v None (p @ [Key k]) False = Some []"
      by simp
    from "13.hyps"(2) [OF own True w] "13.prems"
    have "walk_object pf api_info param kvs p = Some []"
      by simp
    with own True w show ?thesis by simp
  next
    case False
    from "13.hyps"(3) [OF own False] "13.prems"
    have "walk_object pf api_info param kvs p = Some []"
      by simp
    with own False show ?thesis by simp
  qed
qed simp_all

text \<open>
  Where also \<open>NodeBlob\<close> has been assigned, the walk of every value without such a property
  resolves.
\<close>

lemma walk_resolves:
  "has_Blob pf \<Longrightarrow> node_blob pf \<Longrightarrow> plain_objects t \<Longrightarrow>
     \<exists>rs. walk_and_store_blobs pf api t ty p root = Some rs"
  "has_Blob pf \<Longrightarrow> node_blob pf \<Longrightarrow> plain_objects_array xs \<Longrightarrow>
     \<exists>rss. walk_array pf api xs i ty p root = Some rss"
  "has_Blob pf \<Longrightarrow> node_blob pf \<Longrightarrow> map_of param ''hasOwnProperty'' = None \<Longrightarrow>
     plain_objects_object kvs \<Longrightarrow> \<exists>rs. walk_object pf api param kvs p = Some rs"
proof (induct pf api t ty p root and pf api xs i ty p root and pf api param kvs p
      rule: walk_and_store_blobs_walk_array_walk_object.induct)
  case (1 pf api_info xs ty p root)
  then obtain rss where "walk_array pf api_info xs 0 ty p root = Some rss"
    by auto
  then show ?case by simp
next
  case (11 pf api_info x xs i ty p root)
  let ?w = "walk_and_store_blobs pf api_info x (if root then component_at api_info i else ty)
              (p @ [Idx i]) False"
  from 11 obtain r where w: "?w = Some r" by auto
  from "11.hyps"(2) [OF w] "11.prems" obtain rss where
    "walk_array pf api_info xs (Suc i) ty p root = Some rss"
    by auto
  with w show ?case
    by (cases root) simp_all
next
  case (13 pf api_info param k v kvs p)
  from "13.prems"(3) obtain own where own: "has_own_property param k = Some own"
    by (simp add: has_own_property_def)
  show ?case
  proof (cases own)
    case True
    from "13.hyps"(1) [OF own True] "13.prems"
    obtain r where w: "walk_and_store_blobs pf api_info v None (p @ [Key k]) False = Some r"
      by auto
    from "13.hyps"(2) [OF own True w] "13.prems"
    obtain rs where "walk_object pf api_info param kvs p = Some rs"
      by auto
    with own True w show ?thesis by simp
  next
    case False
    from "13.hyps"(3) [OF own False] "13.prems"
    obtain rs where "walk_object pf api_info param kvs p = Some rs"
      by auto
    with own False show ?thesis by simp
  qed
qed simp_all

text \<open>A walk that resolves gives as many references as the value has binary leaves.\<close>

lemma length_walk:
  "schedule_ok pf \<Longrightarrow> walk_and_store_blobs pf api t ty p root = Some rs \<Longrightarrow>
     length rs = binary_leaves t"
  "schedule_ok pf \<Longrightarrow> walk_array pf api xs i ty p root = Some rss \<Longrightarrow>
     length rss = length xs \<and> sum_list (map length rss) = binary_leaves_array xs"
  "schedule_ok pf \<Longrightarrow> walk_object pf api param kvs p = Some rs \<Longrightarrow>
     fst ` set kvs \<subseteq> fst ` set param \<Longrightarrow> length rs = binary_leaves_object kvs"
proof (induct pf api t ty p root and pf api xs i ty p root and pf api param kvs p
      arbitrary: rs and rss and rs
      rule: walk_and_store_blobs_walk_array_walk_object.induct)
  case (1 pf api_info xs ty p root)
  from "1.prems"(2) obtain rss where rss: "walk_array pf api_info xs 0 ty p root = Some rss"
    and rs: "rs = concat (in_order (completion pf p (length xs)) rss)"
    by (auto split: option.splits)
  from "1.hyps" [OF "1.prems"(1) rss]
  have len: "length rss = length xs" and sum: "sum_list (map length rss) = binary_leaves_array xs"
    by simp_all
  from "1.prems"(1) have "distinct (completion pf p (length xs))"
    "set (completion pf p (length xs)) = {..<length rss}"
    by (simp_all add: schedule_ok_def len)
  then have "sum_list (map length (in_order (completion pf p (length xs)) rss))
               = sum_list (map length rss)"
    by (rule in_order_permutation)
  with rs sum show ?case
    by (simp add: length_concat)
next
  case (4 pf api_info kvs ty p root)
  then show ?case by (auto split: if_splits)
next
  case (11 pf api_info x xs i ty p root)
  from walk_array_Cons_Some [OF "11.prems"(2)] obtain r rs' where
    r: "walk_and_store_blobs pf api_info x (if root then component_at api_info i else ty)
          (p @ [Idx i]) False = Some r"
    and rs': "walk_array pf api_info xs (Suc i) ty p root = Some rs'" and rss: "rss = r # rs'"
    by blast
  from "11.hyps"(1) [OF "11.prems"(1) r] "11.hyps"(2) [OF r "11.prems"(1) rs'] rss
  show ?case by simp
next
  case (13 pf api_info param k v kvs p)
  from "13.prems"(3) have k: "k \<in> fst ` set param" by simp
  from walk_object_Cons_Some [OF "13.prems"(2) k] obtain r rs' where
    own: "has_own_property param k = Some True"
    and r: "walk_and_store_blobs pf api_info v None (p @ [Key k]) False = Some r"
    and rs': "walk_object pf api_info param kvs p = Some rs'" and rs: "rs = r @ rs'"
    by blast
  from "13.hyps"(1) [OF own _ "13.prems"(1) r] have "length r = binary_leaves v"
    by simp
  moreover from "13.hyps"(2) [OF own _ r "13.prems"(1) rs'] "13.prems"(3)
  have "length rs' = binary_leaves_object kvs"
    by simp
  ultimately show ?case
    using rs by simp
qed (auto split: if_splits)

text \<open>
  Every reference of a walk started with path \<open>p\<close> has a path \<open>p @ q\<close> where \<open>q\<close> leads from the
  walked value to a binary leaf, and the reference is the one the walk makes of that leaf.
\<close>

lemma walk_paths:
  "walk_and_store_blobs pf api t ty p root = Some rs \<Longrightarrow> r \<in> set rs \<Longrightarrow> distinct_keys t \<Longrightarrow>
     \<exists>q. r_path r = p @ q \<and> is_binary (follow t q)
       \<and> walk_and_store_blobs pf api (follow t q) (r_type r) (r_path r) False = Some [r]"
  "walk_array pf api xs i ty p root = Some rss \<Longrightarrow> r \<in> set (concat rss) \<Longrightarrow>
     distinct_keys_array xs \<Longrightarrow>
     \<exists>j q. j < length xs \<and> r_path r = p @ Idx (i + j) # q \<and> is_binary (follow (xs ! j) q)
       \<and> walk_and_store_blobs pf api (follow (xs ! j) q) (r_type r) (r_path r) False = Some [r]"
  "walk_object pf api param kvs p = Some rs \<Longrightarrow> r \<in> set rs \<Longrightarrow> distinct_keys_object kvs \<Longrightarrow>
     distinct (map fst kvs) \<Longrightarrow>
     \<exists>k v q. map_of kvs k = Some v \<and> r_path r = p @ Key k # q \<and> is_binary (follow v q)
       \<and> walk_and_store_blobs pf api (follow v q) (r_type r) (r_path r) False = Some [r]"
proof (induct pf api t ty p root and pf api xs i ty p root and pf api param kvs p
      arbitrary: rs r and rss r and rs r
      rule: walk_and_store_blobs_walk_array_walk_object.induct)
  case (1 pf api_info xs ty p root)
  from "1.prems"(1) obtain rss where rss: "walk_array pf api_info xs 0 ty p root = Some rss"
    and rs: "rs = concat (in_order (completion pf p (length xs)) rss)"
    by (auto split: option.splits)
  from rs "1.prems"(2) set_in_order [of "completion pf p (length xs)" rss]
  have "r \<in> set (concat rss)"
    by auto
  from "1.hyps" [OF rss this] "1.prems"(3)
  obtain j q where "j < length xs" "r_path r = p @ Idx (0 + j) # q"
      "is_binary (follow (xs ! j) q)"
      "walk_and_store_blobs pf api_info (follow (xs ! j) q) (r_type r) (r_path r) False
         = Some [r]"
    by auto
  then show ?case
    by (intro exI [of _ "Idx j # q"]) simp
next
  case (2 pf api_info b ty p root)
  then show ?case by (intro exI [of _ "[]"]) (auto split: if_splits)
next
  case (3 pf api_info b ty p root)
  then show ?case by (intro exI [of _ "[]"]) (auto split: if_splits)
next
  case (4 pf api_info kvs ty p root)
  from "4.prems"(1) have blob: "has_Blob pf"
    and w: "walk_object pf api_info kvs kvs p = Some rs"
    by (auto split: if_splits)
  from "4.hyps" [OF _ w "4.prems"(2)] blob "4.prems"(3)
  obtain k v q where "map_of kvs k = Some v" "r_path r = p @ Key k # q"
      "is_binary (follow v q)"
      "walk_and_store_blobs pf api_info (follow v q) (r_type r) (r_path r) False = Some [r]"
    by auto
  then show ?case
    by (intro exI [of _ "Key k # q"]) simp
next
  case (11 pf api_info x xs i ty p root)
  from walk_array_Cons_Some [OF "11.prems"(1)] obtain r0 rs' where
    r0: "walk_and_store_blobs pf api_info x (if root then component_at api_info i else ty)
          (p @ [Idx i]) False = Some r0"
    and rs': "walk_array pf api_info xs (Suc i) ty p root = Some rs'" and rss: "rss = r0 # rs'"
    by blast
  from "11.prems"(2) rss consider (first) "r \<in> set r0" | (rest) "r \<in> set (concat rs')"
    by auto
  then show ?case
  proof cases
    case first
    from "11.hyps"(1) [OF r0 first] "11.prems"(3)
    obtain q where "r_path r = (p @ [Idx i]) @ q" "is_binary (follow x q)"
      "walk_and_store_blobs pf api_info (follow x q) (r_type r) (r_path r) False = Some [r]"
      by auto
    then show ?thesis
      by (intro exI [of _ 0] exI [of _ q]) simp
  next
    case rest
    from "11.hyps"(2) [OF r0 rs' rest] "11.prems"(3)
    obtain j q where "j < length xs"
      "r_path r = p @ Idx (Suc i + j) # q" "is_binary (follow (xs ! j) q)"
      "walk_and_store_blobs pf api_info (follow (xs ! j) q) (r_type r) (r_path r) False
         = Some [r]"
      by auto
    then show ?thesis
      by (intro exI [of _ "Suc j"] exI [of _ q]) simp
  qed
next
  case (13 pf api_info param k v kvs p)
  from "13.prems"(1) obtain own where own: "has_own_property param k = Some own"
    by (auto split: option.splits)
  show ?case
  proof (cases own)
    case True
    with own "13.prems"(1) obtain r0 rs' where
      r0: "walk_and_store_blobs pf api_info v None (p @ [Key k]) False = Some r0"
      and rs': "walk_object pf api_info param kvs p = Some rs'" and rs: "rs = r0 @ rs'"
      by (auto split: option.splits)
    from "13.prems"(2) rs consider (first) "r \<in> set r0" | (rest) "r \<in> set rs'"
      by auto
    then show ?thesis
    proof cases
      case first
      from "13.hyps"(1) [OF own True r0 first] "13.prems"(3)
      obtain q where "r_path r = (p @ [Key k]) @ q" "is_binary (follow v q)"
        "walk_and_store_blobs pf api_info (follow v q) (r_type r) (r_path r) False = Some [r]"
        by auto
      then show ?thesis
        by (intro exI [of _ k] exI [of _ v] exI [of _ q]) simp
    next
      case rest
      from "13.hyps"(2) [OF own True r0 rs' rest] "13.prems"(3,4)
      obtain k' v' q where kv: "map_of kvs k' = Some v'"
        "r_path r = p @ Key k' # q" "is_binary (follow v' q)"
        "walk_and_store_blobs pf api_info (follow v' q) (r_type r) (r_path r) False = Some [r]"
        by auto
      from kv(1) have "(k', v') \<in> set kvs"
        by (rule map_of_SomeD)
      then have "k' \<in> fst ` set kvs"
        by force
      with "13.prems"(4) have "k' \<noteq> k" by auto
      with kv show ?thesis
        by (intro exI [of _ k'] exI [of _ v'] exI [of _ q]) simp
    qed
  next
    case False
    with own "13.prems"(1) have rs': "walk_object pf api_info param kvs p = Some rs"
      by simp
    from "13.hyps"(3) [OF own False rs' "13.prems"(2)] "13.prems"(3,4)
    obtain k' v' q where kv: "map_of kvs k' = Some v'"
      "r_path r = p @ Key k' # q" "is_binary (follow v' q)"
      "walk_and_store_blobs pf api_info (follow v' q) (r_type r) (r_path r) False = Some [r]"
      by auto
    from kv(1) have "(k', v') \<in> set kvs"
      by (rule map_of_SomeD)
    then have "k' \<in> fst ` set kvs"
      by force
    with "13.prems"(4) have "k' \<noteq> k" by auto
    with kv show ?thesis
      by (intro exI [of _ k'] exI [of _ v'] exI [of _ q]) simp
  qed
qed (auto split: if_splits)

text \<open>
  On arguments without a binary leaf and without such a property, \<open>handle_blob\<close> resolves,
  making no upload, with the arguments as they were.
\<close>

lemma handle_blob_without_binary_leaves:
  assumes "has_Blob pf" and "plain_objects_array data" and "binary_leaves_array data = 0"
  shows "handle_blob pf upload data api_info = Some (JArr data)"
proof -
  from assms have "walk_and_store_blobs pf api_info (JArr data) None [] True = Some []"
    by (intro walk_without_binary_leaves(1)) simp_all
  then show ?thesis
    by (simp add: handle_blob_def)
qed

lemma plain_arguments_round_trip:
  "binary_leaves (JArr plain_arguments) = 0
   \<and> walk_and_store_blobs example_platform (Some example_endpoint_info)
        (JArr plain_arguments) None [] True = Some []
   \<and> handle_blob example_platform example_upload plain_arguments (Some example_endpoint_info)
       = Some (JArr plain_arguments)"
proof -
  have b: "has_Blob example_platform"
    by (simp add: example_platform_def)
  have p: "plain_objects (JArr plain_arguments)"
    by (simp add: plain_arguments_def)
  have l: "binary_leaves (JArr plain_arguments) = 0"
    by (simp add: plain_arguments_def)
  from walk_without_binary_leaves(1) [OF b p l]
    handle_blob_without_binary_leaves [OF b, of plain_arguments] p l
  show ?thesis by simp
qed

text \<open>
  The references a walk resolves with: as many as the payload has binary leaves, and the
  path of each, followed from the root of the payload, ends at a binary leaf of which this
  reference is the one the walk makes. The payload is any value whose objects have one
  property of a name, as JavaScript objects do.
\<close>

lemma references_of_walk:
  assumes "schedule_ok pf" and "distinct_keys t"
    and "walk_and_store_blobs pf api_info t ty [] root = Some rs"
  shows "length rs = binary_leaves t
       \<and> (\<forall>r \<in> set rs.
            is_binary (follow t (r_path r))
            \<and> walk_and_store_blobs pf api_info (follow t (r_path r)) (r_type r) (r_path r) False
                = Some [r])"
proof (intro conjI ballI)
  show "length rs = binary_leaves t"
    using assms(1,3) by (rule length_walk(1))
next
  fix r assume "r \<in> set rs"
  from walk_paths(1) [OF assms(3) this assms(2)]
  obtain q where q: "r_path r = [] @ q" "is_binary (follow t q)"
    "walk_and_store_blobs pf api_info (follow t q) (r_type r) (r_path r) False = Some [r]"
    by blast
  from q show "is_binary (follow t (r_path r))" by simp
  from q show "walk_and_store_blobs pf api_info (follow t (r_path r)) (r_type r) (r_path r)
                 False = Some [r]" by simp
qed

text \<open>
  The example arguments: three binary leaves, three references, whose paths and types are
  listed here without their order.
\<close>

lemma example_schedule_ok: "schedule_ok example_platform"
  by (auto simp: schedule_ok_def example_platform_def)

lemma example_arguments_references:
  "distinct_keys (JArr example_arguments)
   \<and> plain_objects (JArr example_arguments)
   \<and> binary_leaves (JArr example_arguments) = 3
   \<and> map_option
       (\<lambda>rs. (length rs,
              set (map (\<lambda>r. (r_path r, r_type r, follow (JArr example_arguments) (r_path r))) rs)))
       (walk_and_store_blobs example_platform (Some example_endpoint_info)
          (JArr example_arguments) None [] True)
     = Some (3, {([Idx 0, Key ''image''], None, JBlob [137, 80]),
                 ([Idx 1], Some ''File'', JBuffer [255]),
                 ([Idx 2, Idx 1], Some ''Gallery'', JBlob [1, 2, 3])})"
proof -
  have d: "distinct_keys (JArr example_arguments)"
    by (simp add: example_arguments_def)
  have p: "plain_objects (JArr example_arguments)"
    by (simp add: example_arguments_def)
  have l: "binary_leaves (JArr example_arguments) = 3"
    by (simp add: example_arguments_def)
  have w: "walk_and_store_blobs example_platform (Some example_endpoint_info)
          (JArr example_arguments) None [] True
     = Some [\<lparr>r_path = [Idx 2, Idx 1], r_blob = Some [1, 2, 3], r_data = None,
              r_type = Some ''Gallery''\<rparr>,
             \<lparr>r_path = [Idx 1], r_blob = Some [255], r_data = None, r_type = Some ''File''\<rparr>,
             \<lparr>r_path = [Idx 0, Key ''image''], r_blob = Some [137, 80], r_data = None,
              r_type = None\<rparr>]"
    by (simp add: example_arguments_def example_endpoint_info_def component_at_def
                  example_platform_def in_order_def has_own_property_def upt_rec)
  from references_of_walk [OF example_schedule_ok d w] d p l
  show ?thesis
    unfolding w by (auto simp: example_arguments_def)
qed

text \<open>
  C5 fails on the code. The loop over the properties of an object calls \<open>hasOwnProperty\<close> on
  the object itself (line 773). When an object of the payload, at any depth, has an own property of
  that name, the call throws: the walk returns no reference sequence but rejects,
  \<open>handle_blob\<close> rejects with it, and the payload is never handed back. The arguments
  \<open>[{hasOwnProperty: 1}]\<close> hold no binary leaf.
\<close>

theorem walk_rejects_own_hasOwnProperty:
  assumes "\<not> plain_objects t"
  shows "walk_and_store_blobs pf api_info t ty p root = None
       \<and> (t = JArr data \<longrightarrow> handle_blob pf upload data api_info = None)"
proof -
  have "walk_and_store_blobs pf api_info t ty' p' root' = None" for ty' p' root'
    using assms by (rule walk_rejects(1))
  then show ?thesis
    by (auto simp: handle_blob_def)
qed

theorem walk_rejects_own_hasOwnProperty_witness:
  "binary_leaves (JArr shadowing_arguments) = 0
   \<and> \<not> plain_objects (JArr shadowing_arguments)
   \<and> walk_and_store_blobs example_platform None (JArr shadowing_arguments) None [] True = None
   \<and> handle_blob example_platform example_upload shadowing_arguments None = None"
proof -
  have n: "\<not> plain_objects (JArr shadowing_arguments)"
    by (simp add: shadowing_arguments_def)
  have "binary_leaves (JArr shadowing_arguments) = 0"
    by (simp add: shadowing_arguments_def)
  with n walk_rejects_own_hasOwnProperty [OF n, of example_platform None None "[]" True
      shadowing_arguments example_upload]
  show ?thesis by simp
qed

text \<open>
  C6 fails on the code, by the same call. The arguments \<open>[blob, {hasOwnProperty: 1}]\<close> hold
  one binary leaf, which the walk of the first element reaches and makes a reference of;
  the walk of the second element throws, so the walk of the arguments rejects and no
  reference is emitted.
\<close>

theorem references_lost_on_own_hasOwnProperty:
  "binary_leaves (JArr blob_and_shadowing_arguments) = 1
   \<and> walk_and_store_blobs example_platform None (JBlob [1, 2, 3]) None [Idx 0] False
       = Some [\<lparr>r_path = [Idx 0], r_blob = Some [1, 2, 3], r_data = None, r_type = None\<rparr>]
   \<and> walk_and_store_blobs example_platform None (JArr blob_and_shadowing_arguments) None []
        True = None
   \<and> handle_blob example_platform example_upload blob_and_shadowing_arguments None = None"
  by (simp add: blob_and_shadowing_arguments_def example_platform_def has_own_property_def
                handle_blob_def component_at_def)

subsection \<open>The schema\<close>

lemma property_key_0: "property_key 0 = ''0''"
  by code_simp

lemma map_of_put_property:
  "map_of (put_property k v kvs) k' = (if k' = k then Some v else map_of kvs k')"
  by (induction kvs) auto

text \<open>A table that is normalised without exception has, at each name, the normalised entry.\<close>

lemma map_of_transform_category:
  "transform_category cat = Inr n \<Longrightarrow>
     map_of n k = (case map_of cat k of
                     None \<Rightarrow> None
                   | Some info \<Rightarrow>
                       (case transform_endpoint info of Inl e \<Rightarrow> None | Inr i \<Rightarrow> Some i))"
proof (induction cat arbitrary: n)
  case Nil
  then show ?case by (simp add: transform_category_def)
next
  case (Cons a cat)
  obtain endpoint info where a: "a = (endpoint, info)" by (cases a)
  from Cons.prems obtain i n' where i: "transform_endpoint info = Inr i"
      and n': "transform_category cat = Inr n'" and n: "n = (endpoint, i) # n'"
    unfolding transform_category_def a
    by (auto split: sum.splits)
  from Cons.IH [OF n'] i n a show ?case
    by simp
qed

lemma transform_category_entry:
  "transform_category cat = Inr n \<Longrightarrow> (k, info) \<in> set cat \<Longrightarrow>
     \<exists>i. transform_endpoint info = Inr i"
  unfolding transform_category_def
  by (induction cat arbitrary: n) (auto split: sum.splits)

text \<open>
  C8. When the raw document has \<open>"/predict"\<close> among its named endpoints and no unnamed
  endpoint \<open>"0"\<close>, \<open>submit\<close> resolves the same schema entry for the number 0 and for
  \<open>"/predict"\<close>: after a normalisation without exception it is the normalised entry of
  \<open>"/predict"\<close>; when the normalisation threw, \<open>api\<close> is the error pair and both reads throw.
\<close>

theorem predict_alias:
  assumes "map_of (named_endpoints raw) ''/predict'' = Some e"
    and "map_of (unnamed_endpoints raw) ''0'' = None"
  shows "resolve_api_info (view_api None (Some raw)) (EpNum 0)
           = resolve_api_info (view_api None (Some raw)) (EpName ''/predict'')
       \<and> (\<forall>x. view_api None (Some raw) = Api x \<longrightarrow>
            (\<exists>e'. transform_endpoint e = Inr e'
               \<and> map_of (unnamed_endpoints x) ''0'' = Some e'
               \<and> map_of (named_endpoints x) ''/predict'' = Some e'
               \<and> resolve_api_info (Api x) (EpNum 0) = Inr (Some e')
               \<and> resolve_api_info (Api x) (EpName ''/predict'') = Inr (Some e')))"
proof -
  let ?aliased = "raw\<lparr>unnamed_endpoints := put_property ''0'' e (unnamed_endpoints raw)\<rparr>"
  have v: "view_api None (Some raw) =
             (case transform_api_info ?aliased of Inl ex \<Rightarrow> ApiError | Inr x \<Rightarrow> Api x)"
    using assms by (simp add: view_api_def)
  show ?thesis
  proof (cases "transform_api_info ?aliased")
    case (Inl ex)
    then show ?thesis
      by (simp add: v resolve_api_info_def)
  next
    case (Inr x)
    then obtain n u where n: "transform_category (named_endpoints raw) = Inr n"
        and u: "transform_category (put_property ''0'' e (unnamed_endpoints raw)) = Inr u"
        and x: "x = \<lparr>named_endpoints = n, unnamed_endpoints = u\<rparr>"
      by (auto simp: transform_api_info_def split: sum.splits)
    have named: "map_of n ''/predict'' =
        (case transform_endpoint e of Inl ex \<Rightarrow> None | Inr i \<Rightarrow> Some i)"
      using map_of_transform_category [OF n, of "''/predict''"] assms(1) by simp
    have unnamed: "map_of u ''0'' =
        (case transform_endpoint e of Inl ex \<Rightarrow> None | Inr i \<Rightarrow> Some i)"
      using map_of_transform_category [OF u, of "''0''"] by (simp add: map_of_put_property)
    have "(''/predict'', e) \<in> set (named_endpoints raw)"
      using assms(1) by (rule map_of_SomeD)
    from transform_category_entry [OF n this]
    obtain e' where e': "transform_endpoint e = Inr e'" ..
    show ?thesis
      using Inr x named unnamed e'
      by (simp add: v resolve_api_info_def property_key_0)
  qed
qed

theorem predict_alias_witness:
  "map_of (named_endpoints example_raw_api) ''/predict'' \<noteq> None
   \<and> map_of (unnamed_endpoints example_raw_api) ''0'' = None
   \<and> resolve_api_info (view_api None (Some example_raw_api)) (EpNum 0)
       = Inr (Some \<lparr>parameters = [\<lparr>j_label = ''text'', j_component = ''Textbox'',
                                    j_type = Some ''string'', j_description = JStr ''text''\<rparr>],
                     returns = [\<lparr>j_label = ''text'', j_component = ''Textbox'',
                                 j_type = Some ''string'', j_description = JStr ''text''\<rparr>]\<rparr>)
   \<and> resolve_api_info (view_api None (Some example_raw_api)) (EpName ''/predict'')
       = resolve_api_info (view_api None (Some example_raw_api)) (EpNum 0)"
proof -
  let ?e = "\<lparr>parameters =
             [\<lparr>a_label = ''text'',
                a_type = JObj [(''type'', JStr ''string''), (''description'', JStr ''text'')],
                a_component = ''Textbox''\<rparr>],
           returns = []\<rparr>"
  have named: "map_of (named_endpoints example_raw_api) ''/predict'' = Some ?e"
    by (simp add: example_raw_api_def)
  have unnamed: "map_of (unnamed_endpoints example_raw_api) ''0'' = None"
    by (simp add: example_raw_api_def)
  have entry: "resolve_api_info (view_api None (Some example_raw_api)) (EpName ''/predict'')
       = Inr (Some \<lparr>parameters = [\<lparr>j_label = ''text'', j_component = ''Textbox'',
                                    j_type = Some ''string'', j_description = JStr ''text''\<rparr>],
                     returns = [\<lparr>j_label = ''text'', j_component = ''Textbox'',
                                 j_type = Some ''string'', j_description = JStr ''text''\<rparr>]\<rparr>)"
    by (simp add: example_raw_api_def view_api_def transform_api_info_def
          transform_category_def transform_endpoint_def transform_data_def get_type_def
          get_description_def resolve_api_info_def)
  from predict_alias [OF named unnamed] named unnamed entry
  show ?thesis by simp
qed

subsection \<open>The wake-poll\<close>

text \<open>
  A poll answered with the stage \<open>STOPPED\<close>, \<open>SLEEPING\<close> or \<open>BUILDING\<close> calls the callback once,
  with load status \<open>pending\<close>, and sets the timer of the next poll to 1000 milliseconds.
\<close>

lemma check_space_status_waiting:
  assumes "stage \<in> {''STOPPED'', ''SLEEPING'', ''BUILDING''}"
  shows "\<exists>st. check_space_status de (stage_response stage) cb w = (cb st w, Some 1000)
           \<and> sp_load_status st = LoadPending \<and> sp_status st \<noteq> SpRunning"
proof -
  let ?sleeping = "\<lparr>sp_status = SpSleeping, sp_load_status = LoadPending,
        sp_message = ''Space is asleep. Waking it up...'', sp_detail = JStr stage,
        sp_discussions_enabled = None\<rparr>"
  let ?building = "\<lparr>sp_status = SpBuilding, sp_load_status = LoadPending,
        sp_message = ''Space is building...'', sp_detail = JStr stage,
        sp_discussions_enabled = None\<rparr>"
  from assms consider "stage = ''STOPPED''" | "stage = ''SLEEPING''" | "stage = ''BUILDING''"
    by auto
  then show ?thesis
  proof cases
    case 1
    then have "check_space_status de (stage_response stage) cb w = (cb ?sleeping w, Some 1000)"
      by (simp add: check_space_status_def stage_response_def)
    then show ?thesis
      by (intro exI [of _ ?sleeping]) simp
  next
    case 2
    then have "check_space_status de (stage_response stage) cb w = (cb ?sleeping w, Some 1000)"
      by (simp add: check_space_status_def stage_response_def)
    then show ?thesis
      by (intro exI [of _ ?sleeping]) simp
  next
    case 3
    then have "check_space_status de (stage_response stage) cb w = (cb ?building w, Some 1000)"
      by (simp add: check_space_status_def stage_response_def)
    then show ?thesis
      by (intro exI [of _ ?building]) simp
  qed
qed

lemma wake_poll_waiting:
  assumes "set stages \<subseteq> {''STOPPED'', ''SLEEPING'', ''BUILDING''}"
  shows "\<exists>w'. wake_poll de True resolved (map stage_response stages @ rest) w
                = wake_poll de True resolved rest w'
           \<and> map sp_load_status (w_callbacks w')
                = map sp_load_status (w_callbacks w) @ replicate (length stages) LoadPending
           \<and> w_resolved w' = w_resolved w
           \<and> w_clock w' = w_clock w + 1000 * length stages"
  using assms
proof (induction stages arbitrary: w)
  case Nil
  show ?case by (rule exI [of _ w]) simp
next
  case (Cons stage stages)
  then have "stage \<in> {''STOPPED'', ''SLEEPING'', ''BUILDING''}" by simp
  from check_space_status_waiting [OF this, of de "handle_space_sucess True resolved" w]
  obtain st where st: "check_space_status de (stage_response stage)
        (handle_space_sucess True resolved) w
          = (handle_space_sucess True resolved st w, Some 1000)"
      "sp_load_status st = LoadPending" "sp_status st \<noteq> SpRunning"
    by blast
  let ?w1 = "(handle_space_sucess True resolved st w)
               \<lparr>w_clock := w_clock (handle_space_sucess True resolved st w) + 1000\<rparr>"
  have w1: "w_callbacks ?w1 = w_callbacks w @ [st]" "w_resolved ?w1 = w_resolved w"
      "w_clock ?w1 = w_clock w + 1000"
    using st(3) by (simp_all add: handle_space_sucess_def)
  from Cons have "set stages \<subseteq> {''STOPPED'', ''SLEEPING'', ''BUILDING''}" by simp
  from Cons.IH [OF this, of ?w1]
  obtain w' where w': "wake_poll de True resolved (map stage_response stages @ rest) ?w1
        = wake_poll de True resolved rest w'"
      "map sp_load_status (w_callbacks w')
        = map sp_load_status (w_callbacks ?w1) @ replicate (length stages) LoadPending"
      "w_resolved w' = w_resolved ?w1"
      "w_clock w' = w_clock ?w1 + 1000 * length stages"
    by blast
  have a: "wake_poll de True resolved (map stage_response (stage # stages) @ rest) w
      = wake_poll de True resolved rest w'"
    using w'(1) by (simp add: st(1))
  have b: "map sp_load_status (w_callbacks w')
      = map sp_load_status (w_callbacks w) @ replicate (length (stage # stages)) LoadPending"
    by (simp add: w'(2) w1(1) st(2) replicate_app_Cons_same)
  have c: "w_resolved w' = w_resolved w"
    by (simp add: w'(3) w1(2))
  have d: "w_clock w' = w_clock w + 1000 * length (stage # stages)"
    by (simp add: w'(4) w1(3))
  show ?case
    by (rule exI [of _ w']) (intro conjI a b c d)
qed

text \<open>
  C9, as the code has it. The start of a client whose first \<open>resolve_config\<close> has thrown and
  whose reference names a space, with a status callback, polls answered by any number of
  stages \<open>STOPPED\<close>, \<open>SLEEPING\<close>, \<open>BUILDING\<close> and then by \<open>RUNNING\<close>, and a new \<open>resolve_config\<close> that
  succeeds: the callback is invoked once per poll, with load status \<open>pending\<close> for each
  waiting stage and \<open>complete\<close> for the last, the client is resolved once, and 1000
  milliseconds were waited per waiting stage. For the answers \<open>BUILDING\<close>, \<open>BUILDING\<close>,
  \<open>RUNNING\<close> these are three invocations. Each poll answered by a waiting stage sets one
  timer, of 1000 milliseconds; the number of polls is not bounded.
\<close>

theorem wake_poll_until_running:
  assumes "set stages \<subseteq> {''STOPPED'', ''SLEEPING'', ''BUILDING''}"
  shows "map sp_load_status (w_callbacks
            (client_start de True None True (Some cfg)
               (map stage_response stages @ [stage_response ''RUNNING''])))
           = replicate (length stages) LoadPending @ [LoadComplete]
       \<and> w_resolved (client_start de True None True (Some cfg)
               (map stage_response stages @ [stage_response ''RUNNING''])) = [cfg]
       \<and> w_clock (client_start de True None True (Some cfg)
               (map stage_response stages @ [stage_response ''RUNNING''])) = 1000 * length stages
       \<and> (\<forall>stage \<in> {''STOPPED'', ''SLEEPING'', ''BUILDING''}.
            snd (check_space_status de (stage_response stage) cb w) = Some 1000)
       \<and> map sp_load_status (w_callbacks
            (client_start de True None True (Some cfg)
               [stage_response ''BUILDING'', stage_response ''BUILDING'',
                stage_response ''RUNNING'']))
           = [LoadPending, LoadPending, LoadComplete]
       \<and> w_resolved (client_start de True None True (Some cfg)
               [stage_response ''BUILDING'', stage_response ''BUILDING'',
                stage_response ''RUNNING'']) = [cfg]"
proof -
  let ?w0 = "\<lparr>w_callbacks = [], w_resolved = [], w_clock = 0\<rparr>"
  have running: "wake_poll de True (Some cfg) [stage_response ''RUNNING''] w'
      = w'\<lparr>w_callbacks := w_callbacks w' @
              [\<lparr>sp_status = SpRunning, sp_load_status = LoadComplete, sp_message = [],
                sp_detail = JStr ''RUNNING'', sp_discussions_enabled = None\<rparr>],
            w_resolved := w_resolved w' @ [cfg]\<rparr>" for w'
    by (simp add: check_space_status_def stage_response_def handle_space_sucess_def)
  have general: "map sp_load_status (w_callbacks
            (client_start de True None True (Some cfg)
               (map stage_response ss @ [stage_response ''RUNNING''])))
           = replicate (length ss) LoadPending @ [LoadComplete]
       \<and> w_resolved (client_start de True None True (Some cfg)
               (map stage_response ss @ [stage_response ''RUNNING''])) = [cfg]
       \<and> w_clock (client_start de True None True (Some cfg)
               (map stage_response ss @ [stage_response ''RUNNING''])) = 1000 * length ss"
    if "set ss \<subseteq> {''STOPPED'', ''SLEEPING'', ''BUILDING''}" for ss
  proof -
    from wake_poll_waiting [OF that, of de "Some cfg" "[stage_response ''RUNNING'']" ?w0]
    obtain w' where w': "wake_poll de True (Some cfg)
          (map stage_response ss @ [stage_response ''RUNNING'']) ?w0
          = wake_poll de True (Some cfg) [stage_response ''RUNNING''] w'"
        "map sp_load_status (w_callbacks w') = replicate (length ss) LoadPending"
        "w_resolved w' = []" "w_clock w' = 1000 * length ss"
      by auto
    have "client_start de True None True (Some cfg)
            (map stage_response ss @ [stage_response ''RUNNING''])
          = w'\<lparr>w_callbacks := w_callbacks w' @
              [\<lparr>sp_status = SpRunning, sp_load_status = LoadComplete, sp_message = [],
                sp_detail = JStr ''RUNNING'', sp_discussions_enabled = None\<rparr>],
            w_resolved := w_resolved w' @ [cfg]\<rparr>"
      unfolding client_start_def by (simp only: w'(1) running option.case if_True)
    then show ?thesis
      by (simp add: w'(2-4))
  qed
  have timer: "snd (check_space_status de (stage_response stage) cb w) = Some 1000"
    if "stage \<in> {''STOPPED'', ''SLEEPING'', ''BUILDING''}" for stage
    using check_space_status_waiting [OF that, of de cb w] by auto
  have "set [''BUILDING'', ''BUILDING''] \<subseteq> {''STOPPED'', ''SLEEPING'', ''BUILDING''}"
    by simp
  from general [OF this] have scenario: "map sp_load_status (w_callbacks
            (client_start de True None True (Some cfg)
               [stage_response ''BUILDING'', stage_response ''BUILDING'',
                stage_response ''RUNNING'']))
           = [LoadPending, LoadPending, LoadComplete]
       \<and> w_resolved (client_start de True None True (Some cfg)
               [stage_response ''BUILDING'', stage_response ''BUILDING'',
                stage_response ''RUNNING'']) = [cfg]"
    by (simp add: numeral_2_eq_2)
  show ?thesis
    by (intro conjI ballI timer) (use general [OF assms] scenario in simp_all)
qed

text \<open>
  The theorem at the answers \<open>SLEEPING\<close>, \<open>BUILDING\<close>, \<open>BUILDING\<close>, \<open>RUNNING\<close>: four invocations, one
  resolution, three seconds of waiting.
\<close>

theorem wake_poll_until_running_witness:
  "map sp_load_status (w_callbacks
      (client_start example_discussions True None True (Some example_config)
         [stage_response ''SLEEPING'', stage_response ''BUILDING'', stage_response ''BUILDING'',
          stage_response ''RUNNING'']))
     = [LoadPending, LoadPending, LoadPending, LoadComplete]
   \<and> w_resolved (client_start example_discussions True None True (Some example_config)
         [stage_response ''SLEEPING'', stage_response ''BUILDING'', stage_response ''BUILDING'',
          stage_response ''RUNNING'']) = [example_config]
   \<and> w_clock (client_start example_discussions True None True (Some example_config)
         [stage_response ''SLEEPING'', stage_response ''BUILDING'', stage_response ''BUILDING'',
          stage_response ''RUNNING'']) = 3000
   \<and> snd (check_space_status example_discussions (stage_response ''SLEEPING'')
            (handle_space_sucess True (Some example_config))
            \<lparr>w_callbacks = [], w_resolved = [], w_clock = 0\<rparr>) = Some 1000"
proof -
  have "set [''SLEEPING'', ''BUILDING'', ''BUILDING'']
          \<subseteq> {''STOPPED'', ''SLEEPING'', ''BUILDING''}"
    by simp
  note w = wake_poll_until_running [OF this, of example_discussions example_config
      "handle_space_sucess True (Some example_config)"
      "\<lparr>w_callbacks = [], w_resolved = [], w_clock = 0\<rparr>"]
  have eq: "map stage_response [''SLEEPING'', ''BUILDING'', ''BUILDING'']
              @ [stage_response ''RUNNING'']
            = [stage_response ''SLEEPING'', stage_response ''BUILDING'',
               stage_response ''BUILDING'', stage_response ''RUNNING'']"
    by simp
  have len: "length [''SLEEPING'', ''BUILDING'', ''BUILDING''] = 3"
    by simp
  have rep: "replicate 3 LoadPending @ [LoadComplete]
               = [LoadPending, LoadPending, LoadPending, LoadComplete]"
    by (simp add: numeral_3_eq_3)
  show ?thesis
    using w unfolding eq len rep by simp
qed

text \<open>
  C9 as stated fails when the \<open>resolve_config\<close> that follows \<open>RUNNING\<close> throws: after the
  answers \<open>BUILDING\<close>, \<open>BUILDING\<close>, \<open>RUNNING\<close> the callback is invoked a fourth time, with load
  status \<open>error\<close>, and the client is not resolved.
\<close>

theorem wake_poll_resolve_fails_counterexample:
  "map sp_load_status (w_callbacks
      (client_start example_discussions True None True None
         [stage_response ''BUILDING'', stage_response ''BUILDING'', stage_response ''RUNNING'']))
     = [LoadPending, LoadPending, LoadComplete, LoadError]
   \<and> w_resolved (client_start example_discussions True None True None
         [stage_response ''BUILDING'', stage_response ''BUILDING'', stage_response ''RUNNING''])
       = []"
  by (simp add: client_start_def check_space_status_def stage_response_def
        handle_space_sucess_def could_not_load_def)

end
